theory Spec2Isabelle
  imports Complex_Main
begin

section \<open>Numbers of the host library\<close>

text \<open>
  The analyzer (\<^verbatim>\<open>src/trading_logic.py\<close>, class \<^verbatim>\<open>TradingAnalyzer\<close>) computes on
  pandas columns of 64-bit floats. A cell is a finite number, one of the two infinities,
  or NaN (the null of a float column). Finite numbers are modelled as exact reals:
  rounding and the sign of zero are outside the model. The special values follow
  IEEE 754 as numpy implements it: an operation on NaN is NaN, a comparison with NaN is
  false, a nonzero number divided by zero is an infinity, zero divided by zero is NaN,
  and no arithmetic operation raises.
\<close>

datatype fnum = Fin real | PInf | NInf | NaN

fun f_lt :: "fnum \<Rightarrow> fnum \<Rightarrow> bool" where
  "f_lt (Fin a) (Fin b) = (a < b)"
| "f_lt (Fin a) PInf = True"
| "f_lt NInf (Fin b) = True"
| "f_lt NInf PInf = True"
| "f_lt _ _ = False"

definition f_gt :: "fnum \<Rightarrow> fnum \<Rightarrow> bool" where
  "f_gt a b = f_lt b a"

fun f_neg :: "fnum \<Rightarrow> fnum" where
  "f_neg (Fin a) = Fin (- a)"
| "f_neg PInf = NInf"
| "f_neg NInf = PInf"
| "f_neg NaN = NaN"

fun f_abs :: "fnum \<Rightarrow> fnum" where
  "f_abs (Fin a) = Fin \<bar>a\<bar>"
| "f_abs PInf = PInf"
| "f_abs NInf = PInf"
| "f_abs NaN = NaN"

fun f_add :: "fnum \<Rightarrow> fnum \<Rightarrow> fnum" where
  "f_add (Fin a) (Fin b) = Fin (a + b)"
| "f_add NaN _ = NaN"
| "f_add _ NaN = NaN"
| "f_add PInf NInf = NaN"
| "f_add NInf PInf = NaN"
| "f_add PInf _ = PInf"
| "f_add _ PInf = PInf"
| "f_add NInf _ = NInf"
| "f_add _ NInf = NInf"

definition f_sub :: "fnum \<Rightarrow> fnum \<Rightarrow> fnum" where
  "f_sub a b = f_add a (f_neg b)"

fun f_mul :: "fnum \<Rightarrow> fnum \<Rightarrow> fnum" where
  "f_mul (Fin a) (Fin b) = Fin (a * b)"
| "f_mul NaN _ = NaN"
| "f_mul _ NaN = NaN"
| "f_mul PInf (Fin b) = (if 0 < b then PInf else if b < 0 then NInf else NaN)"
| "f_mul NInf (Fin b) = (if 0 < b then NInf else if b < 0 then PInf else NaN)"
| "f_mul (Fin a) PInf = (if 0 < a then PInf else if a < 0 then NInf else NaN)"
| "f_mul (Fin a) NInf = (if 0 < a then NInf else if a < 0 then PInf else NaN)"
| "f_mul PInf PInf = PInf"
| "f_mul NInf NInf = PInf"
| "f_mul PInf NInf = NInf"
| "f_mul NInf PInf = NInf"

fun f_div :: "fnum \<Rightarrow> fnum \<Rightarrow> fnum" where
  "f_div (Fin a) (Fin b) =
     (if b \<noteq> 0 then Fin (a / b)
      else if 0 < a then PInf else if a < 0 then NInf else NaN)"
| "f_div NaN _ = NaN"
| "f_div _ NaN = NaN"
| "f_div (Fin a) PInf = Fin 0"
| "f_div (Fin a) NInf = Fin 0"
| "f_div PInf (Fin b) = (if 0 \<le> b then PInf else NInf)"
| "f_div NInf (Fin b) = (if 0 \<le> b then NInf else PInf)"
| "f_div PInf PInf = NaN"
| "f_div PInf NInf = NaN"
| "f_div NInf PInf = NaN"
| "f_div NInf NInf = NaN"

text \<open>
  Python's builtins \<^verbatim>\<open>min(a, b)\<close> and \<^verbatim>\<open>max(a, b)\<close> return the first argument
  unless the second is strictly smaller (larger), so a NaN in second place loses.
\<close>

definition py_min :: "fnum \<Rightarrow> fnum \<Rightarrow> fnum" where
  "py_min a b = (if f_lt b a then b else a)"

definition py_max :: "fnum \<Rightarrow> fnum \<Rightarrow> fnum" where
  "py_max a b = (if f_gt b a then b else a)"

text \<open>
  \<^verbatim>\<open>pd.isna\<close> on a scalar: Python's \<^verbatim>\<open>None\<close> (what \<^verbatim>\<open>Series.get\<close> returns for a
  missing label) and NaN are null; an infinity is not.
\<close>

fun isna :: "fnum option \<Rightarrow> bool" where
  "isna None = True"
| "isna (Some NaN) = True"
| "isna (Some _) = False"

section \<open>Column operations of pandas used by the analyzer\<close>

text \<open>
  The close column is a list of finite prices (\<^verbatim>\<open>pd.to_numeric\<close> has been applied and
  the data source delivers numbers). \<^verbatim>\<open>Series.diff()\<close> is null at the first row.
\<close>

fun diff_from :: "real \<Rightarrow> real list \<Rightarrow> fnum list" where
  "diff_from prev [] = []"
| "diff_from prev (x # xs) = Fin (x - prev) # diff_from x xs"

fun diff :: "real list \<Rightarrow> fnum list" where
  "diff [] = []"
| "diff (x # xs) = NaN # diff_from x xs"

text \<open>
  \<^verbatim>\<open>s.where(cond, other)\<close> keeps a cell where the condition holds and puts
  \<^verbatim>\<open>other\<close> where it does not. A comparison with NaN is false, so a null cell is
  replaced as well.
\<close>

definition where_series :: "(fnum \<Rightarrow> bool) \<Rightarrow> fnum \<Rightarrow> fnum list \<Rightarrow> fnum list" where
  "where_series cond other s = map (\<lambda>d. if cond d then d else other) s"

text \<open>
  \<^verbatim>\<open>s.rolling(window=w).mean()\<close> with the default \<^verbatim>\<open>min_periods = w\<close>: the cell at
  row \<open>i\<close> is the mean of the \<open>w\<close> cells ending at \<open>i\<close> when all of them are present
  and finite, and null otherwise (rolling treats an infinity as missing).
\<close>

fun finite_values :: "fnum list \<Rightarrow> real list option" where
  "finite_values [] = Some []"
| "finite_values (Fin a # xs) =
     (case finite_values xs of None \<Rightarrow> None | Some vs \<Rightarrow> Some (a # vs))"
| "finite_values (_ # xs) = None"

definition window_mean :: "nat \<Rightarrow> fnum list \<Rightarrow> fnum" where
  "window_mean w cells =
     (case finite_values cells of
        None \<Rightarrow> NaN
      | Some vs \<Rightarrow> if w = 0 \<or> length vs < w then NaN else Fin (sum_list vs / real w))"

definition rolling_mean :: "nat \<Rightarrow> fnum list \<Rightarrow> fnum list" where
  "rolling_mean w s =
     map (\<lambda>i. if i + 1 < w then NaN else window_mean w (take w (drop (i + 1 - w) s)))
       [0..<length s]"

text \<open>
  \<^verbatim>\<open>s.ewm(span=p, adjust=False).mean()\<close> on a column without nulls: the first cell is
  copied, and each later cell is \<open>(1 - \<alpha>) * previous + \<alpha> * current\<close> with
  \<open>\<alpha> = 2 / (p + 1)\<close>. pandas rejects a span below 1; the analyzer only passes
  its fixed periods 9, 12, 21 and 26.
\<close>

fun ewm_from :: "real \<Rightarrow> real \<Rightarrow> real list \<Rightarrow> real list" where
  "ewm_from \<alpha> prev [] = []"
| "ewm_from \<alpha> prev (x # xs) =
     (let y = (1 - \<alpha>) * prev + \<alpha> * x in y # ewm_from \<alpha> y xs)"

fun ewm_mean :: "nat \<Rightarrow> real list \<Rightarrow> real list" where
  "ewm_mean period [] = []"
| "ewm_mean period (x # xs) = x # ewm_from (2 / (real period + 1)) x xs"

section \<open>The indicators\<close>

text \<open>The constructor's fixed configuration.\<close>

definition rsi_period :: nat where "rsi_period = 14"
definition macd_fast :: nat where "macd_fast = 12"
definition macd_slow :: nat where "macd_slow = 26"
definition macd_signal_period :: nat where "macd_signal_period = 9"
definition ema_short :: nat where "ema_short = 9"
definition ema_long :: nat where "ema_long = 21"

text \<open>
  \<^verbatim>\<open>_calculate_rsi\<close>. The two rolling averages are named so that properties can refer
  to them: \<open>rsi_gain\<close> and \<open>rsi_loss\<close> are the source's \<^verbatim>\<open>gain\<close> and \<^verbatim>\<open>loss\<close>.
\<close>

definition rsi_gain :: "real list \<Rightarrow> nat \<Rightarrow> fnum list" where
  "rsi_gain prices period =
     (let delta = diff prices
      in rolling_mean period (where_series (\<lambda>d. f_gt d (Fin 0)) (Fin 0) delta))"

definition rsi_loss :: "real list \<Rightarrow> nat \<Rightarrow> fnum list" where
  "rsi_loss prices period =
     (let delta = diff prices
      in rolling_mean period (map f_neg (where_series (\<lambda>d. f_lt d (Fin 0)) (Fin 0) delta)))"

definition calculate_rsi :: "real list \<Rightarrow> nat \<Rightarrow> fnum list" where
  "calculate_rsi prices period =
     (let gain = rsi_gain prices period;
          loss = rsi_loss prices period;
          rs = map2 f_div gain loss
      in map (\<lambda>r. f_sub (Fin 100) (f_div (Fin 100) (f_add (Fin 1) r))) rs)"

text \<open>\<^verbatim>\<open>_calculate_ema\<close> and \<^verbatim>\<open>_calculate_macd\<close>.\<close>

definition calculate_ema :: "real list \<Rightarrow> nat \<Rightarrow> real list" where
  "calculate_ema prices period = ewm_mean period prices"

definition calculate_macd ::
  "real list \<Rightarrow> nat \<Rightarrow> nat \<Rightarrow> nat \<Rightarrow> real list \<times> real list \<times> real list" where
  "calculate_macd prices fast slow signal =
     (let ema_fast = calculate_ema prices fast;
          ema_slow = calculate_ema prices slow;
          macd_line = map2 (-) ema_fast ema_slow;
          signal_line = calculate_ema macd_line signal;
          histogram = map2 (-) macd_line signal_line
      in (macd_line, signal_line, histogram))"

section \<open>The decision rule\<close>

text \<open>
  \<^verbatim>\<open>_determine_signal\<close> returns one of three fixed strings; the datatype names them by
  their words. \<open>buy_condition\<close> and \<open>sell_condition\<close> are the conditions of the
  source's \<^verbatim>\<open>if\<close> and \<^verbatim>\<open>elif\<close>.
\<close>

datatype signal_class = SINAL_DE_COMPRA | SINAL_DE_VENDA | AGUARDAR

definition buy_condition :: "fnum \<Rightarrow> fnum \<Rightarrow> fnum \<Rightarrow> fnum \<Rightarrow> fnum \<Rightarrow> bool" where
  "buy_condition rsi macd_valor sinal_macd ema9 ema21 =
     (f_gt rsi (Fin 45) \<and> f_lt rsi (Fin 75) \<and>
      f_gt macd_valor sinal_macd \<and>
      f_gt ema9 ema21 \<and>
      f_gt (f_sub macd_valor sinal_macd) (Fin 0.001))"

definition sell_condition :: "fnum \<Rightarrow> fnum \<Rightarrow> fnum \<Rightarrow> fnum \<Rightarrow> fnum \<Rightarrow> bool" where
  "sell_condition rsi macd_valor sinal_macd ema9 ema21 =
     (f_lt rsi (Fin 55) \<and> f_gt rsi (Fin 25) \<and>
      f_lt macd_valor sinal_macd \<and>
      f_lt ema9 ema21 \<and>
      f_gt (f_sub sinal_macd macd_valor) (Fin 0.001))"

definition determine_signal :: "fnum \<Rightarrow> fnum \<Rightarrow> fnum \<Rightarrow> fnum \<Rightarrow> fnum \<Rightarrow> signal_class" where
  "determine_signal rsi macd_valor sinal_macd ema9 ema21 =
     (if buy_condition rsi macd_valor sinal_macd ema9 ema21 then SINAL_DE_COMPRA
      else if sell_condition rsi macd_valor sinal_macd ema9 ema21 then SINAL_DE_VENDA
      else AGUARDAR)"

section \<open>The data frame\<close>

text \<open>
  A row of the frame maps column labels to cells; the frame is the list of its rows, all
  with the same labels. The price frame has the single column \<^verbatim>\<open>close\<close> (the time
  stamp is its index), so \<open>calculate_indicators\<close> takes that column and returns the
  frame with the eight indicator columns added. On numeric prices none of its steps
  raises, so the \<^verbatim>\<open>except\<close> branch (which returns the frame as it is) is not taken.
\<close>

type_synonym row = "(string \<times> fnum) list"
type_synonym dataframe = "row list"

definition calculate_indicators :: "real list \<Rightarrow> dataframe" where
  "calculate_indicators close =
     (let rsi_col = calculate_rsi close rsi_period;
          (macd_line, signal_line, histogram) =
             calculate_macd close macd_fast macd_slow macd_signal_period;
          ema9_col = calculate_ema close ema_short;
          ema21_col = calculate_ema close ema_long;
          volume_col = map f_abs (diff close);
          media_volume_col = rolling_mean 20 volume_col
      in map (\<lambda>i. [(''close'', Fin (close ! i)),
                    (''RSI'', rsi_col ! i),
                    (''MACD_12_26_9'', Fin (macd_line ! i)),
                    (''MACDs_12_26_9'', Fin (signal_line ! i)),
                    (''MACDh_12_26_9'', Fin (histogram ! i)),
                    (''EMA9'', Fin (ema9_col ! i)),
                    (''EMA21'', Fin (ema21_col ! i)),
                    (''Volume'', volume_col ! i),
                    (''MediaVolume'', media_volume_col ! i)])
           [0..<length close])"

text \<open>
  \<^verbatim>\<open>Series.get(label)\<close> is \<^verbatim>\<open>None\<close> for a missing label; \<^verbatim>\<open>Series.get(label, d)\<close>
  is \<open>d\<close> then. \<^verbatim>\<open>df.empty\<close> holds for a frame without rows or without columns.
\<close>

definition get :: "row \<Rightarrow> string \<Rightarrow> fnum option" where
  "get r label = map_of r label"

definition get_default :: "row \<Rightarrow> string \<Rightarrow> fnum \<Rightarrow> fnum" where
  "get_default r label d = (case map_of r label of None \<Rightarrow> d | Some v \<Rightarrow> v)"

definition df_empty :: "dataframe \<Rightarrow> bool" where
  "df_empty df = (case df of [] \<Rightarrow> True | r # _ \<Rightarrow> r = [])"

section \<open>The signal record\<close>

text \<open>The dictionary that \<^verbatim>\<open>generate_signal\<close> returns, one field per key.\<close>

record signal_data =
  signal :: signal_class
  price :: fnum
  rsi :: fnum
  macd :: fnum
  macd_signal :: fnum
  ema9 :: fnum
  ema21 :: fnum
  volume :: fnum
  volume_avg :: fnum

text \<open>
  \<^verbatim>\<open>generate_signal\<close>: the body of its \<^verbatim>\<open>try\<close>, where an exception is a value, and the
  function itself, whose \<^verbatim>\<open>except\<close> turns every exception into \<^verbatim>\<open>None\<close>. The argument
  is \<open>None\<close> when the caller has no frame. Comparing Python's \<^verbatim>\<open>None\<close> with a number
  raises \<^verbatim>\<open>TypeError\<close>; the null check before the decision keeps that branch from
  being reached.
\<close>

datatype py_exception = TypeError

definition required_indicators :: "string list" where
  "required_indicators =
     [''RSI'', ''MACD_12_26_9'', ''MACDs_12_26_9'', ''EMA9'', ''EMA21'', ''close'']"

definition generate_signal_body :: "dataframe option \<Rightarrow> py_exception + signal_data option" where
  "generate_signal_body df_opt =
     (case df_opt of
        None \<Rightarrow> Inr None
      | Some df \<Rightarrow>
          if df_empty df \<or> length df < 2 then Inr None
          else
            (let latest = last df;
                 rsi = get latest ''RSI'';
                 macd_valor = get latest ''MACD_12_26_9'';
                 sinal_macd = get latest ''MACDs_12_26_9'';
                 ema9 = get latest ''EMA9'';
                 ema21 = get latest ''EMA21'';
                 preco = get latest ''close'';
                 volume = get_default latest ''Volume'' (Fin 0);
                 media_volume = get_default latest ''MediaVolume'' (Fin 0)
             in if list_ex isna [rsi, macd_valor, sinal_macd, ema9, ema21, preco] then Inr None
                else
                  (case (rsi, macd_valor, sinal_macd, ema9, ema21, preco) of
                     (Some r, Some m, Some s, Some e9, Some e21, Some p) \<Rightarrow>
                       Inr (Some \<lparr>signal = determine_signal r m s e9 e21,
                                  price = p, rsi = r, macd = m, macd_signal = s,
                                  ema9 = e9, ema21 = e21,
                                  volume = volume, volume_avg = media_volume\<rparr>)
                   | _ \<Rightarrow> Inl TypeError)))"

definition generate_signal :: "dataframe option \<Rightarrow> signal_data option" where
  "generate_signal df_opt =
     (case generate_signal_body df_opt of Inl e \<Rightarrow> None | Inr result \<Rightarrow> result)"

text \<open>
  \<^verbatim>\<open>get_signal_strength\<close>. The record's numbers are numpy floats, so no step raises and
  the \<^verbatim>\<open>except\<close> branch (which returns 50) is not taken.
\<close>

definition get_signal_strength :: "signal_data \<Rightarrow> fnum" where
  "get_signal_strength signal_data =
     (let rsi = rsi signal_data;
          macd = macd signal_data;
          macd_signal = macd_signal signal_data;
          ema9 = ema9 signal_data;
          ema21 = ema21 signal_data;
          strength = Fin 0;
          strength =
            (if f_gt rsi (Fin 70) then f_add strength (Fin 2)
             else if f_gt rsi (Fin 60) then f_add strength (Fin 1)
             else if f_lt rsi (Fin 30) then f_sub strength (Fin 2)
             else if f_lt rsi (Fin 40) then f_sub strength (Fin 1)
             else strength);
          macd_diff = f_abs (f_sub macd macd_signal);
          strength =
            (if f_gt macd macd_signal
             then f_add strength (py_min (Fin 2) (f_mul macd_diff (Fin 100)))
             else f_sub strength (py_min (Fin 2) (f_mul macd_diff (Fin 100))));
          ema_diff = f_mul (f_div (f_abs (f_sub ema9 ema21)) ema21) (Fin 100);
          strength =
            (if f_gt ema9 ema21
             then f_add strength (py_min (Fin 2) ema_diff)
             else f_sub strength (py_min (Fin 2) ema_diff))
      in py_max (Fin 0) (py_min (Fin 100) (f_mul (f_add strength (Fin 10)) (Fin 5))))"

section \<open>Properties of the decision rule\<close>

lemma f_lt_asym: "f_lt a b \<Longrightarrow> \<not> f_lt b a"
  by (cases a; cases b) simp_all

text \<open>
  C1. On finite numbers the decision is: buy iff 45 < rsi < 75, macd > macd_signal,
  ema_short > ema_long and macd - macd_signal > 0.001; otherwise sell iff
  25 < rsi < 55, macd < macd_signal, ema_short < ema_long and
  macd_signal - macd > 0.001; otherwise hold. With rsi = 50, macd = 1.0 and
  macd_signal = 0.9995 the result is hold, whatever the two averages are.
\<close>

theorem determine_signal_rule:
  "determine_signal (Fin r) (Fin m) (Fin s) (Fin e9) (Fin e21) =
     (if 45 < r \<and> r < 75 \<and> m > s \<and> e9 > e21 \<and> m - s > 0.001 then SINAL_DE_COMPRA
      else if 25 < r \<and> r < 55 \<and> m < s \<and> e9 < e21 \<and> s - m > 0.001 then SINAL_DE_VENDA
      else AGUARDAR)
   \<and> determine_signal (Fin 50) (Fin 1.0) (Fin 0.9995) (Fin e9) (Fin e21) = AGUARDAR"
  by (simp add: determine_signal_def buy_condition_def sell_condition_def f_gt_def f_sub_def)


text \<open>
  C5. The buy condition and the sell condition never hold together, for any five
  values (null and infinite ones included). A partial confirmation, where MACD and the
  averages do not point the same way, gives hold.
\<close>

theorem buy_sell_exclusive:
  "\<not> (buy_condition r m s e9 e21 \<and> sell_condition r m s e9 e21) \<and>
   (\<not> (f_gt m s \<and> f_gt e9 e21) \<and> \<not> (f_lt m s \<and> f_lt e9 e21)
      \<longrightarrow> determine_signal r m s e9 e21 = AGUARDAR)"
proof (intro conjI impI)
  show "\<not> (buy_condition r m s e9 e21 \<and> sell_condition r m s e9 e21)"
    using f_lt_asym [of m s]
    by (auto simp: buy_condition_def sell_condition_def f_gt_def)
next
  assume "\<not> (f_gt m s \<and> f_gt e9 e21) \<and> \<not> (f_lt m s \<and> f_lt e9 e21)"
  then show "determine_signal r m s e9 e21 = AGUARDAR"
    by (auto simp: determine_signal_def buy_condition_def sell_condition_def)
qed

theorem buy_sell_exclusive_witness:
  "\<not> (buy_condition (Fin 50) (Fin 1) (Fin 0) (Fin 1) (Fin 2) \<and>
      sell_condition (Fin 50) (Fin 1) (Fin 0) (Fin 1) (Fin 2)) \<and>
   f_gt (Fin 1) (Fin 0) \<and> f_lt (Fin 1) (Fin 2) \<and>
   determine_signal (Fin 50) (Fin 1) (Fin 0) (Fin 1) (Fin 2) = AGUARDAR"
  using buy_sell_exclusive [of "Fin 50" "Fin 1" "Fin 0" "Fin 1" "Fin 2"]
  by (simp add: f_gt_def)

section \<open>Properties of signal generation\<close>

lemma not_isna_Some: "\<not> isna v \<Longrightarrow> \<exists>a. v = Some a \<and> a \<noteq> NaN"
  by (cases v rule: isna.cases) simp_all

lemma generate_signal_body_Some:
  assumes "\<not> df_empty df" "2 \<le> length df"
    and "get (last df) ''RSI'' = Some r" "r \<noteq> NaN"
    and "get (last df) ''MACD_12_26_9'' = Some m" "m \<noteq> NaN"
    and "get (last df) ''MACDs_12_26_9'' = Some s" "s \<noteq> NaN"
    and "get (last df) ''EMA9'' = Some e9" "e9 \<noteq> NaN"
    and "get (last df) ''EMA21'' = Some e21" "e21 \<noteq> NaN"
    and "get (last df) ''close'' = Some p" "p \<noteq> NaN"
  shows "generate_signal_body (Some df) =
     Inr (Some \<lparr>signal = determine_signal r m s e9 e21,
                price = p, rsi = r, macd = m, macd_signal = s, ema9 = e9, ema21 = e21,
                volume = get_default (last df) ''Volume'' (Fin 0),
                volume_avg = get_default (last df) ''MediaVolume'' (Fin 0)\<rparr>)"
proof -
  have na: "\<And>a. a \<noteq> NaN \<Longrightarrow> \<not> isna (Some a)"
    by (case_tac a) simp_all
  show ?thesis
    using assms by (simp add: generate_signal_body_def Let_def na)
qed

lemma generate_signal_body_unfold:
  "generate_signal_body (Some df) =
    (if df_empty df \<or> length df < 2 then Inr None
     else if isna (get (last df) ''RSI'') \<or> isna (get (last df) ''MACD_12_26_9'') \<or>
        isna (get (last df) ''MACDs_12_26_9'') \<or> isna (get (last df) ''EMA9'') \<or>
        isna (get (last df) ''EMA21'') \<or> isna (get (last df) ''close'') then Inr None
     else (case (get (last df) ''RSI'', get (last df) ''MACD_12_26_9'',
        get (last df) ''MACDs_12_26_9'', get (last df) ''EMA9'', get (last df) ''EMA21'',
        get (last df) ''close'') of
                     (Some r, Some m, Some s, Some e9, Some e21, Some p) \<Rightarrow>
                       Inr (Some \<lparr>signal = determine_signal r m s e9 e21,
                                  price = p, rsi = r, macd = m, macd_signal = s,
                                  ema9 = e9, ema21 = e21,
                                  volume = get_default (last df) ''Volume'' (Fin 0), 
                                  volume_avg = get_default (last df) ''MediaVolume'' (Fin 0)\<rparr>)
                   | _ \<Rightarrow> Inl TypeError))"
  unfolding generate_signal_body_def Let_def by simp

lemma generate_signal_body_cases:
  "generate_signal_body d = Inr None \<or>
   (\<exists>df r m s e9 e21 p. d = Some df \<and> \<not> df_empty df \<and> 2 \<le> length df \<and>
      get (last df) ''RSI'' = Some r \<and> r \<noteq> NaN \<and>
      get (last df) ''MACD_12_26_9'' = Some m \<and> m \<noteq> NaN \<and>
      get (last df) ''MACDs_12_26_9'' = Some s \<and> s \<noteq> NaN \<and>
      get (last df) ''EMA9'' = Some e9 \<and> e9 \<noteq> NaN \<and>
      get (last df) ''EMA21'' = Some e21 \<and> e21 \<noteq> NaN \<and>
      get (last df) ''close'' = Some p \<and> p \<noteq> NaN)"
proof (cases d)
  case None
  then show ?thesis by (simp add: generate_signal_body_def)
next
  case (Some df)
  let ?na = "df_empty df \<or> length df < 2 \<or>
        isna (get (last df) ''RSI'') \<or> isna (get (last df) ''MACD_12_26_9'') \<or>
        isna (get (last df) ''MACDs_12_26_9'') \<or> isna (get (last df) ''EMA9'') \<or>
        isna (get (last df) ''EMA21'') \<or> isna (get (last df) ''close'')"
  show ?thesis
  proof (cases ?na)
    case True
    then have "generate_signal_body (Some df) = Inr None"
      by (simp only: generate_signal_body_unfold) auto
    then show ?thesis using Some by simp
  next
    case False
    then have sz: "\<not> df_empty df" "2 \<le> length df" by simp_all
    from False obtain r where r: "get (last df) ''RSI'' = Some r" "r \<noteq> NaN"
      using not_isna_Some [of "get (last df) ''RSI''"] by blast
    from False obtain m where m: "get (last df) ''MACD_12_26_9'' = Some m" "m \<noteq> NaN"
      using not_isna_Some [of "get (last df) ''MACD_12_26_9''"] by blast
    from False obtain s where s: "get (last df) ''MACDs_12_26_9'' = Some s" "s \<noteq> NaN"
      using not_isna_Some [of "get (last df) ''MACDs_12_26_9''"] by blast
    from False obtain e9 where e9: "get (last df) ''EMA9'' = Some e9" "e9 \<noteq> NaN"
      using not_isna_Some [of "get (last df) ''EMA9''"] by blast
    from False obtain e21 where e21: "get (last df) ''EMA21'' = Some e21" "e21 \<noteq> NaN"
      using not_isna_Some [of "get (last df) ''EMA21''"] by blast
    from False obtain p where p: "get (last df) ''close'' = Some p" "p \<noteq> NaN"
      using not_isna_Some [of "get (last df) ''close''"] by blast
    have "\<exists>df r m s e9 e21 p. d = Some df \<and> \<not> df_empty df \<and> 2 \<le> length df \<and>
      get (last df) ''RSI'' = Some r \<and> r \<noteq> NaN \<and>
      get (last df) ''MACD_12_26_9'' = Some m \<and> m \<noteq> NaN \<and>
      get (last df) ''MACDs_12_26_9'' = Some s \<and> s \<noteq> NaN \<and>
      get (last df) ''EMA9'' = Some e9 \<and> e9 \<noteq> NaN \<and>
      get (last df) ''EMA21'' = Some e21 \<and> e21 \<noteq> NaN \<and>
      get (last df) ''close'' = Some p \<and> p \<noteq> NaN"
      apply (rule exI [of _ df], rule exI [of _ r], rule exI [of _ m], rule exI [of _ s])
      apply (rule exI [of _ e9], rule exI [of _ e21], rule exI [of _ p])
      using Some sz r m s e9 e21 p by simp
    then show ?thesis ..
  qed
qed

lemma generate_signal_body_no_exception:
  "generate_signal_body d = Inr (generate_signal d)"
proof -
  from generate_signal_body_cases [of d] consider
    (none) "generate_signal_body d = Inr None"
  | (some) df r m s e9 e21 p where "d = Some df" "\<not> df_empty df" "2 \<le> length df"
      "get (last df) ''RSI'' = Some r" "r \<noteq> NaN"
      "get (last df) ''MACD_12_26_9'' = Some m" "m \<noteq> NaN"
      "get (last df) ''MACDs_12_26_9'' = Some s" "s \<noteq> NaN"
      "get (last df) ''EMA9'' = Some e9" "e9 \<noteq> NaN"
      "get (last df) ''EMA21'' = Some e21" "e21 \<noteq> NaN"
      "get (last df) ''close'' = Some p" "p \<noteq> NaN"
    by blast
  then show ?thesis
  proof cases
    case none
    then show ?thesis by (simp add: generate_signal_def)
  next
    case some
    from generate_signal_body_Some [OF some(2-)] some(1)
    show ?thesis by (simp add: generate_signal_def)
  qed
qed

lemma generate_signal_Some:
  assumes "\<not> df_empty df" "2 \<le> length df"
    and "get (last df) ''RSI'' = Some r" "r \<noteq> NaN"
    and "get (last df) ''MACD_12_26_9'' = Some m" "m \<noteq> NaN"
    and "get (last df) ''MACDs_12_26_9'' = Some s" "s \<noteq> NaN"
    and "get (last df) ''EMA9'' = Some e9" "e9 \<noteq> NaN"
    and "get (last df) ''EMA21'' = Some e21" "e21 \<noteq> NaN"
    and "get (last df) ''close'' = Some p" "p \<noteq> NaN"
  shows "generate_signal (Some df) =
     Some \<lparr>signal = determine_signal r m s e9 e21,
                price = p, rsi = r, macd = m, macd_signal = s, ema9 = e9, ema21 = e21,
                volume = get_default (last df) ''Volume'' (Fin 0),
                volume_avg = get_default (last df) ''MediaVolume'' (Fin 0)\<rparr>"
  using generate_signal_body_Some [OF assms] by (simp add: generate_signal_def)

lemma generate_signal_None:
  assumes "df_empty df \<or> length df < 2 \<or>
        isna (get (last df) ''RSI'') \<or> isna (get (last df) ''MACD_12_26_9'') \<or>
        isna (get (last df) ''MACDs_12_26_9'') \<or> isna (get (last df) ''EMA9'') \<or>
        isna (get (last df) ''EMA21'') \<or> isna (get (last df) ''close'')"
  shows "generate_signal (Some df) = None"
proof -
  from assms have "generate_signal_body (Some df) = Inr None"
    by (simp only: generate_signal_body_unfold) auto
  then show ?thesis by (simp add: generate_signal_def)
qed

lemma generate_signal_Some_D:
  assumes "generate_signal (Some df) = Some sd"
  shows "\<not> df_empty df \<and> 2 \<le> length df \<and>
      get (last df) ''RSI'' = Some (rsi sd) \<and> rsi sd \<noteq> NaN \<and>
      get (last df) ''MACD_12_26_9'' = Some (macd sd) \<and> macd sd \<noteq> NaN \<and>
      get (last df) ''MACDs_12_26_9'' = Some (macd_signal sd) \<and> macd_signal sd \<noteq> NaN \<and>
      get (last df) ''EMA9'' = Some (ema9 sd) \<and> ema9 sd \<noteq> NaN \<and>
      get (last df) ''EMA21'' = Some (ema21 sd) \<and> ema21 sd \<noteq> NaN \<and>
      get (last df) ''close'' = Some (price sd) \<and> price sd \<noteq> NaN \<and>
      signal sd = determine_signal (rsi sd) (macd sd) (macd_signal sd) (ema9 sd) (ema21 sd) \<and>
      volume sd = get_default (last df) ''Volume'' (Fin 0) \<and>
      volume_avg sd = get_default (last df) ''MediaVolume'' (Fin 0)"
proof -
  from assms have "generate_signal_body (Some df) \<noteq> Inr None"
    by (simp add: generate_signal_body_no_exception)
  with generate_signal_body_cases [of "Some df"] obtain r m s e9 e21 p where
    h: "\<not> df_empty df" "2 \<le> length df"
      "get (last df) ''RSI'' = Some r" "r \<noteq> NaN"
      "get (last df) ''MACD_12_26_9'' = Some m" "m \<noteq> NaN"
      "get (last df) ''MACDs_12_26_9'' = Some s" "s \<noteq> NaN"
      "get (last df) ''EMA9'' = Some e9" "e9 \<noteq> NaN"
      "get (last df) ''EMA21'' = Some e21" "e21 \<noteq> NaN"
      "get (last df) ''close'' = Some p" "p \<noteq> NaN"
    by auto
  from generate_signal_Some [OF h] assms
  have sd: "sd = \<lparr>signal = determine_signal r m s e9 e21,
                price = p, rsi = r, macd = m, macd_signal = s, ema9 = e9, ema21 = e21,
                volume = get_default (last df) ''Volume'' (Fin 0),
                volume_avg = get_default (last df) ''MediaVolume'' (Fin 0)\<rparr>"
    by simp
  show ?thesis using h by (simp add: sd)
qed

text \<open>
  C7. The signal class of a returned record is a function of the five governing cells of
  the latest row alone: two frames whose latest rows agree on RSI, MACD, the MACD signal
  line and the two averages get the same class, whatever their prices, volumes, other
  rows or other columns are.
\<close>

theorem signal_class_noninterference:
  assumes "generate_signal (Some df1) = Some sd1"
    and "generate_signal (Some df2) = Some sd2"
    and "get (last df1) ''RSI'' = get (last df2) ''RSI''"
    and "get (last df1) ''MACD_12_26_9'' = get (last df2) ''MACD_12_26_9''"
    and "get (last df1) ''MACDs_12_26_9'' = get (last df2) ''MACDs_12_26_9''"
    and "get (last df1) ''EMA9'' = get (last df2) ''EMA9''"
    and "get (last df1) ''EMA21'' = get (last df2) ''EMA21''"
  shows "signal sd1 = signal sd2"
proof -
  note d1 = generate_signal_Some_D [OF assms(1)]
  note d2 = generate_signal_Some_D [OF assms(2)]
  from d1 d2 assms(3-) have "rsi sd1 = rsi sd2" "macd sd1 = macd sd2"
    "macd_signal sd1 = macd_signal sd2" "ema9 sd1 = ema9 sd2" "ema21 sd1 = ema21 sd2"
    by simp_all
  with d1 d2 show ?thesis by simp
qed

theorem signal_class_noninterference_witness:
  "generate_signal (Some
      [[(''close'', Fin 100), (''RSI'', Fin 50)],
       [(''close'', Fin 123), (''RSI'', Fin 62), (''MACD_12_26_9'', Fin 1.2),
        (''MACDs_12_26_9'', Fin 0.9), (''EMA9'', Fin 118), (''EMA21'', Fin 110),
        (''Volume'', Fin 4), (''MediaVolume'', Fin 2)]]) =
     Some \<lparr>signal = SINAL_DE_COMPRA, price = Fin 123, rsi = Fin 62, macd = Fin 1.2,
            macd_signal = Fin 0.9, ema9 = Fin 118, ema21 = Fin 110,
            volume = Fin 4, volume_avg = Fin 2\<rparr> \<and>
   generate_signal (Some
      [[(''close'', Fin 7)],
       [(''close'', Fin 8), (''RSI'', Fin 62), (''MACD_12_26_9'', Fin 1.2),
        (''MACDs_12_26_9'', Fin 0.9), (''EMA9'', Fin 118), (''EMA21'', Fin 110),
        (''Volume'', NaN)]]) =
     Some \<lparr>signal = SINAL_DE_COMPRA, price = Fin 8, rsi = Fin 62, macd = Fin 1.2,
            macd_signal = Fin 0.9, ema9 = Fin 118, ema21 = Fin 110,
            volume = NaN, volume_avg = Fin 0\<rparr>"
proof -
  let ?df1 = "[[(''close'', Fin 100), (''RSI'', Fin 50)],
       [(''close'', Fin 123), (''RSI'', Fin 62), (''MACD_12_26_9'', Fin 1.2),
        (''MACDs_12_26_9'', Fin 0.9), (''EMA9'', Fin 118), (''EMA21'', Fin 110),
        (''Volume'', Fin 4), (''MediaVolume'', Fin 2)]]"
  let ?df2 = "[[(''close'', Fin 7)],
       [(''close'', Fin 8), (''RSI'', Fin 62), (''MACD_12_26_9'', Fin 1.2),
        (''MACDs_12_26_9'', Fin 0.9), (''EMA9'', Fin 118), (''EMA21'', Fin 110),
        (''Volume'', NaN)]]"
  obtain sd1 where h1: "generate_signal (Some ?df1) = Some sd1"
    and v1: "sd1 = \<lparr>signal = determine_signal (Fin 62) (Fin 1.2) (Fin 0.9) (Fin 118) (Fin 110),
            price = Fin 123, rsi = Fin 62, macd = Fin 1.2,
            macd_signal = Fin 0.9, ema9 = Fin 118, ema21 = Fin 110,
            volume = Fin 4, volume_avg = Fin 2\<rparr>"
    by (simp add: generate_signal_def generate_signal_body_def get_def get_default_def
        df_empty_def)
  obtain sd2 where h2: "generate_signal (Some ?df2) = Some sd2"
    and v2: "sd2 = \<lparr>signal = determine_signal (Fin 62) (Fin 1.2) (Fin 0.9) (Fin 118) (Fin 110),
            price = Fin 8, rsi = Fin 62, macd = Fin 1.2,
            macd_signal = Fin 0.9, ema9 = Fin 118, ema21 = Fin 110,
            volume = NaN, volume_avg = Fin 0\<rparr>"
    by (simp add: generate_signal_def generate_signal_body_def get_def get_default_def
        df_empty_def)
  have s1: "signal sd1 = SINAL_DE_COMPRA"
    by (simp add: v1 determine_signal_def buy_condition_def f_gt_def f_sub_def)
  have "signal sd1 = signal sd2"
    by (rule signal_class_noninterference [OF h1 h2]) (simp_all add: get_def)
  with s1 have s2: "signal sd2 = SINAL_DE_COMPRA" by simp
  have e1: "sd1 = \<lparr>signal = SINAL_DE_COMPRA, price = Fin 123, rsi = Fin 62, macd = Fin 1.2,
            macd_signal = Fin 0.9, ema9 = Fin 118, ema21 = Fin 110,
            volume = Fin 4, volume_avg = Fin 2\<rparr>"
    using s1 by (simp add: v1)
  have e2: "sd2 = \<lparr>signal = SINAL_DE_COMPRA, price = Fin 8, rsi = Fin 62, macd = Fin 1.2,
            macd_signal = Fin 0.9, ema9 = Fin 118, ema21 = Fin 110,
            volume = NaN, volume_avg = Fin 0\<rparr>"
    using s2 by (simp add: v2)
  show ?thesis using h1 h2 e1 e2 by simp
qed

text \<open>
  C2. \<open>generate_signal\<close> returns \<open>None\<close> for a missing frame, for an empty frame,
  for a frame of fewer than two rows, and whenever one of the six required cells of the
  latest row (RSI, MACD, MACD signal, the two averages, the close price) is null or its
  column is absent. No input makes the body raise: it always returns what the function
  returns.
\<close>

theorem generate_signal_insufficient_data:
  "generate_signal None = None \<and>
   (df_empty df \<or> length df < 2 \<longrightarrow> generate_signal (Some df) = None) \<and>
   (k \<in> set required_indicators \<and> isna (get (last df) k)
      \<longrightarrow> generate_signal (Some df) = None) \<and>
   generate_signal_body d = Inr (generate_signal d)"
proof (intro conjI impI)
  show "generate_signal None = None"
    by (simp add: generate_signal_def generate_signal_body_def)
next
  assume "df_empty df \<or> length df < 2"
  then show "generate_signal (Some df) = None"
    by (intro generate_signal_None) blast
next
  assume "k \<in> set required_indicators \<and> isna (get (last df) k)"
  then have "isna (get (last df) ''RSI'') \<or> isna (get (last df) ''MACD_12_26_9'') \<or>
        isna (get (last df) ''MACDs_12_26_9'') \<or> isna (get (last df) ''EMA9'') \<or>
        isna (get (last df) ''EMA21'') \<or> isna (get (last df) ''close'')"
    unfolding required_indicators_def by auto
  then show "generate_signal (Some df) = None"
    by (intro generate_signal_None) blast
next
  show "generate_signal_body d = Inr (generate_signal d)"
    by (rule generate_signal_body_no_exception)
qed

theorem generate_signal_insufficient_data_witness:
  "generate_signal (Some []) = None \<and>
   generate_signal (Some [[(''close'', Fin 100)]]) = None \<and>
   ''EMA21'' \<in> set required_indicators \<and>
   generate_signal (Some
      [[(''close'', Fin 100), (''RSI'', Fin 50), (''MACD_12_26_9'', Fin 1.2),
        (''MACDs_12_26_9'', Fin 0.9), (''EMA9'', Fin 118), (''EMA21'', Fin 110)],
       [(''close'', Fin 123), (''RSI'', Fin 62), (''MACD_12_26_9'', Fin 1.2),
        (''MACDs_12_26_9'', Fin 0.9), (''EMA9'', Fin 118), (''EMA21'', NaN)]]) = None \<and>
   ''RSI'' \<in> set required_indicators \<and>
   generate_signal (Some [[(''close'', Fin 100)], [(''close'', Fin 101)]]) = None"
  using generate_signal_insufficient_data [of "[]"]
    generate_signal_insufficient_data [of "[[(''close'', Fin 100)]]"]
    generate_signal_insufficient_data [of
      "[[(''close'', Fin 100), (''RSI'', Fin 50), (''MACD_12_26_9'', Fin 1.2),
        (''MACDs_12_26_9'', Fin 0.9), (''EMA9'', Fin 118), (''EMA21'', Fin 110)],
       [(''close'', Fin 123), (''RSI'', Fin 62), (''MACD_12_26_9'', Fin 1.2),
        (''MACDs_12_26_9'', Fin 0.9), (''EMA9'', Fin 118), (''EMA21'', NaN)]]" "''EMA21''"]
    generate_signal_insufficient_data [of
      "[[(''close'', Fin 100)], [(''close'', Fin 101)]]" "''RSI''"]
  by (simp add: required_indicators_def get_def df_empty_def)

section \<open>Properties of the moving averages and of MACD\<close>

lemma ewm_from_length: "length (ewm_from a prev xs) = length xs"
  by (induction xs arbitrary: prev) (simp_all add: Let_def)

lemma ewm_from_nth:
  "i < length xs \<Longrightarrow>
   ewm_from a prev xs ! i =
     xs ! i * a + (if i = 0 then prev else ewm_from a prev xs ! (i - 1)) * (1 - a)"
proof (induction xs arbitrary: prev i)
  case Nil
  then show ?case by simp
next
  case (Cons x xs)
  show ?case
  proof (cases i)
    case 0
    then show ?thesis by (simp add: Let_def)
  next
    case (Suc j)
    with Cons.prems have j: "j < length xs" by simp
    show ?thesis using Cons.IH [OF j] Suc
      by (cases j) (simp_all add: Let_def)
  qed
qed

lemma ewm_from_replicate: "ewm_from a v (replicate n v) = replicate n v"
  by (induction n) (simp_all add: Let_def algebra_simps)

lemma calculate_ema_length: "length (calculate_ema prices p) = length prices"
  by (cases prices) (simp_all add: calculate_ema_def ewm_from_length)

lemma calculate_ema_replicate: "calculate_ema (replicate n v) p = replicate n v"
  by (cases n) (simp_all add: calculate_ema_def ewm_from_replicate)

text \<open>
  C4. For a non-empty price column and a period of at least 1, the average has the
  column's length, starts at the first price, and satisfies
  \<open>ema[i] = close[i] * \<alpha> + ema[i - 1] * (1 - \<alpha>)\<close> with \<open>\<alpha> = 2 / (p + 1)\<close> at
  every later row; there is no warm-up window. On a constant column it equals the
  constant at every row.
\<close>

theorem calculate_ema_recurrence:
  assumes "prices \<noteq> []" and "1 \<le> p"
  shows "length (calculate_ema prices p) = length prices \<and>
     calculate_ema prices p ! 0 = prices ! 0 \<and>
     (\<forall>i. 1 \<le> i \<and> i < length prices \<longrightarrow>
        calculate_ema prices p ! i =
          prices ! i * (2 / (real p + 1)) +
          calculate_ema prices p ! (i - 1) * (1 - 2 / (real p + 1))) \<and>
     (\<forall>i < n. calculate_ema (replicate n v) p ! i = v)"
proof (intro conjI allI impI)
  show "length (calculate_ema prices p) = length prices"
    by (rule calculate_ema_length)
next
  show "calculate_ema prices p ! 0 = prices ! 0"
    using assms(1) by (cases prices) (simp_all add: calculate_ema_def)
next
  fix i assume i: "1 \<le> i \<and> i < length prices"
  from assms(1) obtain x xs where px: "prices = x # xs" by (cases prices) auto
  from i obtain j where j: "i = Suc j" by (cases i) auto
  with i px have jl: "j < length xs" by simp
  show "calculate_ema prices p ! i =
          prices ! i * (2 / (real p + 1)) +
          calculate_ema prices p ! (i - 1) * (1 - 2 / (real p + 1))"
    using ewm_from_nth [OF jl, of "2 / (real p + 1)" x]
    by (cases j) (simp_all add: px j calculate_ema_def)
next
  fix i assume "i < n"
  then show "calculate_ema (replicate n v) p ! i = v"
    by (simp add: calculate_ema_replicate)
qed

theorem calculate_ema_recurrence_witness:
  "calculate_ema [10, 20, 15] 9 ! 0 = 10 \<and>
   calculate_ema [10, 20, 15] 9 ! 1 = 12 \<and>
   calculate_ema [10, 20, 15] 9 ! 2 = 63 / 5 \<and>
   calculate_ema (replicate 3 7) 9 ! 2 = 7"
proof -
  have ne: "[10, 20, 15 :: real] \<noteq> []" and p: "(1::nat) \<le> 9" by simp_all
  note t = calculate_ema_recurrence [OF ne p, of 3 7]
  from t have a0: "calculate_ema [10, 20, 15] 9 ! 0 = 10" by simp
  from t have "calculate_ema [10, 20, 15] 9 ! 1 =
      [10, 20, 15] ! 1 * (2 / (real 9 + 1)) +
          calculate_ema [10, 20, 15] 9 ! (1 - 1) * (1 - 2 / (real 9 + 1))"
    by simp
  with a0 have a1: "calculate_ema [10, 20, 15] 9 ! 1 = 12" by simp
  from t have "calculate_ema [10, 20, 15] 9 ! 2 =
      [10, 20, 15] ! 2 * (2 / (real 9 + 1)) +
          calculate_ema [10, 20, 15] 9 ! (2 - 1) * (1 - 2 / (real 9 + 1))"
    by simp
  with a1 have a2: "calculate_ema [10, 20, 15] 9 ! 2 = 63 / 5" by simp
  from t have a3: "calculate_ema (replicate 3 7) 9 ! 2 = 7" by simp
  show ?thesis using a0 a1 a2 a3 by simp
qed

text \<open>
  C8. At every row the MACD histogram is the MACD line minus the signal line, the MACD
  line is the fast average minus the slow average, and the signal line is the same
  average (same recurrence, same seeding) applied to the MACD line with the signal
  period.
\<close>

theorem macd_histogram_identity:
  assumes "calculate_macd prices fast slow sig = (macd_line, signal_line, histogram)"
    and "i < length prices"
  shows "histogram ! i = macd_line ! i - signal_line ! i \<and>
     macd_line ! i = calculate_ema prices fast ! i - calculate_ema prices slow ! i \<and>
     signal_line = calculate_ema macd_line sig \<and>
     length macd_line = length prices \<and> length signal_line = length prices \<and>
     length histogram = length prices"
proof -
  from assms(1) have m: "macd_line = map2 (-) (calculate_ema prices fast) (calculate_ema prices slow)"
    and s: "signal_line = calculate_ema macd_line sig"
    and h: "histogram = map2 (-) macd_line signal_line"
    by (auto simp: calculate_macd_def Let_def)
  have lm: "length macd_line = length prices" by (simp add: m calculate_ema_length)
  have ls: "length signal_line = length prices" by (simp add: s lm calculate_ema_length)
  have lh: "length histogram = length prices" by (simp add: h lm ls)
  have "histogram ! i = macd_line ! i - signal_line ! i"
    using assms(2) lm ls by (simp add: h)
  moreover have "macd_line ! i = calculate_ema prices fast ! i - calculate_ema prices slow ! i"
    using assms(2) by (simp add: m calculate_ema_length)
  ultimately show ?thesis using s lm ls lh by simp
qed

lemma calculate_macd_example:
  "calculate_macd [10, 20, 15] 12 26 9 =
     ([0, 280 / 351, 125020 / 123201],
      [0, 56 / 351, 203644 / 616005],
      [0, 224 / 351, 421456 / 616005])"
  by (simp add: calculate_macd_def calculate_ema_def Let_def)

theorem macd_histogram_identity_witness:
  "(case calculate_macd [10, 20, 15] 12 26 9 of
      (macd_line, signal_line, histogram) \<Rightarrow>
        macd_line ! 1 = 280 / 351 \<and>
        signal_line ! 1 = 56 / 351 \<and>
        histogram ! 1 = macd_line ! 1 - signal_line ! 1 \<and>
        histogram ! 1 = 224 / 351)"
proof -
  have i: "1 < length [10, 20, 15 :: real]" by simp
  have "[0, 224 / 351, 421456 / 616005] ! 1 =
      [0, 280 / 351, 125020 / 123201] ! 1 - [0, 56 / 351, 203644 / 616005 :: real] ! 1"
    using macd_histogram_identity [OF calculate_macd_example i] by (rule conjunct1)
  then show ?thesis unfolding calculate_macd_example by simp
qed


section \<open>Properties of the strength score\<close>

lemma f_gt_Fin: "f_gt (Fin a) (Fin b) = (b < a)"
  by (simp add: f_gt_def)

lemma f_sub_Fin: "f_sub (Fin a) (Fin b) = Fin (a - b)"
  by (simp add: f_sub_def)

lemma py_min_Fin: "py_min (Fin a) (Fin b) = Fin (min a b)"
  by (simp add: py_min_def min_def)

lemma py_max_Fin: "py_max (Fin a) (Fin b) = Fin (max a b)"
  by (simp add: py_max_def max_def f_gt_def)

lemma f_div_Fin: "b \<noteq> 0 \<Longrightarrow> f_div (Fin a) (Fin b) = Fin (a / b)"
  by simp

lemma f_mul_Fin: "f_mul (Fin a) (Fin b) = Fin (a * b)" by simp
lemma f_add_Fin: "f_add (Fin a) (Fin b) = Fin (a + b)" by simp
lemma f_abs_Fin: "f_abs (Fin a) = Fin \<bar>a\<bar>" by simp

lemma get_signal_strength_Fin:
  assumes "e21 \<noteq> 0"
  shows "get_signal_strength \<lparr>signal = c, price = p, rsi = Fin r, macd = Fin m,
        macd_signal = Fin s, ema9 = Fin e9, ema21 = Fin e21, volume = v, volume_avg = va\<rparr> =
     Fin (max 0 (min 100
       (((if 70 < r then 2 else if 60 < r then 1 else if r < 30 then - 2
          else if r < 40 then - 1 else 0)
         + (if s < m then min 2 (\<bar>m - s\<bar> * 100) else - min 2 (\<bar>m - s\<bar> * 100))
         + (if e21 < e9 then min 2 (\<bar>e9 - e21\<bar> / e21 * 100)
            else - min 2 (\<bar>e9 - e21\<bar> / e21 * 100))
         + 10) * 5)))"
proof -
  define rp :: real where "rp = (if 70 < r then 2 else if 60 < r then 1 else if r < 30 then - 2
          else if r < 40 then - 1 else 0)"
  define mp :: real where "mp = (if s < m then min 2 (\<bar>m - s\<bar> * 100) else - min 2 (\<bar>m - s\<bar> * 100))"
  define ep :: real where "ep = (if e21 < e9 then min 2 (\<bar>e9 - e21\<bar> / e21 * 100)
            else - min 2 (\<bar>e9 - e21\<bar> / e21 * 100))"
  have s1: "(if f_gt (Fin r) (Fin 70) then f_add (Fin 0) (Fin 2)
             else if f_gt (Fin r) (Fin 60) then f_add (Fin 0) (Fin 1)
             else if f_lt (Fin r) (Fin 30) then f_sub (Fin 0) (Fin 2)
             else if f_lt (Fin r) (Fin 40) then f_sub (Fin 0) (Fin 1)
             else Fin 0) = Fin rp"
    by (simp add: rp_def f_gt_Fin f_sub_Fin)
  have s2: "(if f_gt (Fin m) (Fin s)
             then f_add (Fin rp) (py_min (Fin 2) (f_mul (f_abs (f_sub (Fin m) (Fin s))) (Fin 100)))
             else f_sub (Fin rp) (py_min (Fin 2) (f_mul (f_abs (f_sub (Fin m) (Fin s))) (Fin 100))))
       = Fin (rp + mp)"
    by (simp only: f_gt_Fin f_sub_Fin f_abs_Fin f_mul_Fin py_min_Fin f_add_Fin mp_def)
       simp
  have s3: "(if f_gt (Fin e9) (Fin e21)
             then f_add (Fin (rp + mp))
               (py_min (Fin 2) (f_mul (f_div (f_abs (f_sub (Fin e9) (Fin e21))) (Fin e21)) (Fin 100)))
             else f_sub (Fin (rp + mp))
               (py_min (Fin 2) (f_mul (f_div (f_abs (f_sub (Fin e9) (Fin e21))) (Fin e21)) (Fin 100))))
       = Fin (rp + mp + ep)"
    by (simp only: f_gt_Fin f_sub_Fin f_abs_Fin f_mul_Fin py_min_Fin f_add_Fin
          f_div_Fin [OF assms] ep_def) simp
  have s4: "py_max (Fin 0) (py_min (Fin 100) (f_mul (f_add (Fin (rp + mp + ep)) (Fin 10)) (Fin 5)))
      = Fin (max 0 (min 100 ((rp + mp + ep + 10) * 5)))"
    by (simp only: f_mul_Fin py_min_Fin py_max_Fin f_add_Fin)
  have "get_signal_strength \<lparr>signal = c, price = p, rsi = Fin r, macd = Fin m,
        macd_signal = Fin s, ema9 = Fin e9, ema21 = Fin e21, volume = v, volume_avg = va\<rparr> =
      Fin (max 0 (min 100 ((rp + mp + ep + 10) * 5)))"
    unfolding get_signal_strength_def Let_def
    by (simp only: signal_data.simps s1 s2 s3 s4)
  then show ?thesis unfolding rp_def mp_def ep_def .
qed

text \<open>
  C9. For a record of finite numbers with a nonzero long average, the
  strength is the clamp to [0, 100] of (raw + 10) * 5, where raw adds the RSI step
  (+2 above 70, +1 above 60, -2 below 30, -1 below 40, else 0), the capped MACD
  difference \<open>min 2 (|macd - macd_signal| * 100)\<close> signed by the direction of MACD, and
  the capped divergence \<open>min 2 (|ema9 - ema21| / ema21 * 100)\<close> signed by the direction
  of the averages. The result is a number between 0 and 100; it need not be a whole
  number.
\<close>

theorem get_signal_strength_score:
  assumes "e21 \<noteq> 0"
  shows "\<exists>x. get_signal_strength \<lparr>signal = c, price = p, rsi = Fin r, macd = Fin m,
        macd_signal = Fin s, ema9 = Fin e9, ema21 = Fin e21, volume = v, volume_avg = va\<rparr> = Fin x \<and>
     x = max 0 (min 100
       (((if 70 < r then 2 else if 60 < r then 1 else if r < 30 then - 2
          else if r < 40 then - 1 else 0)
         + (if s < m then min 2 (\<bar>m - s\<bar> * 100) else - min 2 (\<bar>m - s\<bar> * 100))
         + (if e21 < e9 then min 2 (\<bar>e9 - e21\<bar> / e21 * 100)
            else - min 2 (\<bar>e9 - e21\<bar> / e21 * 100))
         + 10) * 5)) \<and>
     0 \<le> x \<and> x \<le> 100"
proof -
  define y :: real where "y =
       ((if 70 < r then 2 else if 60 < r then 1 else if r < 30 then - 2
          else if r < 40 then - 1 else 0)
         + (if s < m then min 2 (\<bar>m - s\<bar> * 100) else - min 2 (\<bar>m - s\<bar> * 100))
         + (if e21 < e9 then min 2 (\<bar>e9 - e21\<bar> / e21 * 100)
            else - min 2 (\<bar>e9 - e21\<bar> / e21 * 100))
         + 10) * 5"
  have a: "get_signal_strength \<lparr>signal = c, price = p, rsi = Fin r, macd = Fin m,
        macd_signal = Fin s, ema9 = Fin e9, ema21 = Fin e21, volume = v, volume_avg = va\<rparr> =
      Fin (max 0 (min 100 y))"
    unfolding y_def by (rule get_signal_strength_Fin [OF assms])
  have b: "0 \<le> max 0 (min 100 y)" and c: "max 0 (min 100 y) \<le> 100"
    by simp_all
  from a b c have "\<exists>x. get_signal_strength \<lparr>signal = c, price = p, rsi = Fin r, macd = Fin m,
        macd_signal = Fin s, ema9 = Fin e9, ema21 = Fin e21, volume = v, volume_avg = va\<rparr> = Fin x \<and>
      x = max 0 (min 100 y) \<and> 0 \<le> x \<and> x \<le> 100"
    by blast
  then show ?thesis unfolding y_def .
qed

theorem get_signal_strength_score_witness:
  "get_signal_strength \<lparr>signal = SINAL_DE_COMPRA, price = Fin 125, rsi = Fin 62,
      macd = Fin 1.2, macd_signal = Fin 0.9, ema9 = Fin 118, ema21 = Fin 110,
      volume = Fin 2, volume_avg = Fin 2\<rparr> = Fin 75"
proof -
  have nz: "(110::real) \<noteq> 0" by simp
  from get_signal_strength_score [OF nz, of SINAL_DE_COMPRA "Fin 125" 62 "1.2" "0.9" 118
      "Fin 2" "Fin 2"]
  show ?thesis by auto
qed

text \<open>
  The score of a record with rsi = 50, macd = 0.005, macd_signal = 0 and equal averages
  is 52.5, which is not an integer.
\<close>

theorem get_signal_strength_not_integer:
  "get_signal_strength \<lparr>signal = AGUARDAR, price = Fin 100, rsi = Fin 50,
      macd = Fin 0.005, macd_signal = Fin 0, ema9 = Fin 100, ema21 = Fin 100,
      volume = Fin 1, volume_avg = Fin 1\<rparr> = Fin (105 / 2) \<and>
   (105 / 2 :: real) \<notin> \<int>"
proof
  have nz: "(100::real) \<noteq> 0" by simp
  show "get_signal_strength \<lparr>signal = AGUARDAR, price = Fin 100, rsi = Fin 50,
      macd = Fin 0.005, macd_signal = Fin 0, ema9 = Fin 100, ema21 = Fin 100,
      volume = Fin 1, volume_avg = Fin 1\<rparr> = Fin (105 / 2)"
    by (simp add: get_signal_strength_Fin [OF nz])
next
  have "frac (105 / 2 :: real) = 1 / 2" by (simp add: frac_def)
  then have "frac (105 / 2 :: real) \<noteq> 0" by simp
  then show "(105 / 2 :: real) \<notin> \<int>" by (simp only: frac_eq_0_iff not_False_eq_True)
qed

section \<open>Properties of the RSI\<close>

lemma diff_from_length: "length (diff_from prev xs) = length xs"
  by (induction xs arbitrary: prev) simp_all

lemma diff_length: "length (diff xs) = length xs"
  by (cases xs) (simp_all add: diff_from_length)

lemma diff_from_nth:
  "i < length xs \<Longrightarrow>
   diff_from prev xs ! i = Fin (xs ! i - (if i = 0 then prev else xs ! (i - 1)))"
proof (induction xs arbitrary: prev i)
  case Nil
  then show ?case by simp
next
  case (Cons x xs)
  show ?case
  proof (cases i)
    case 0
    then show ?thesis by simp
  next
    case (Suc j)
    with Cons.prems have "j < length xs" by simp
    from Cons.IH [OF this, of x] Suc show ?thesis by (cases j) simp_all
  qed
qed

lemma diff_nth:
  "i < length xs \<Longrightarrow> diff xs ! i = (if i = 0 then NaN else Fin (xs ! i - xs ! (i - 1)))"
proof (cases xs)
  case Nil
  assume "i < length xs"
  with Nil show ?thesis by simp
next
  case (Cons x ys)
  assume i: "i < length xs"
  show ?thesis
  proof (cases i)
    case 0
    then show ?thesis using Cons by simp
  next
    case (Suc j)
    with i Cons have "j < length ys" by simp
    from diff_from_nth [OF this, of x] Suc Cons show ?thesis by (cases j) simp_all
  qed
qed

lemma gain_cells:
  "where_series (\<lambda>d. f_gt d (Fin 0)) (Fin 0) (diff xs) =
     map (\<lambda>j. Fin (if j = 0 then 0 else max 0 (xs ! j - xs ! (j - 1)))) [0..<length xs]"
  by (rule nth_equalityI)
     (simp_all add: where_series_def diff_length diff_nth f_gt_def max_def)

lemma loss_cells:
  "map f_neg (where_series (\<lambda>d. f_lt d (Fin 0)) (Fin 0) (diff xs)) =
     map (\<lambda>j. Fin (if j = 0 then 0 else max 0 (xs ! (j - 1) - xs ! j))) [0..<length xs]"
  by (rule nth_equalityI)
     (simp_all add: where_series_def diff_length diff_nth max_def)

lemma finite_values_map_Fin: "finite_values (map (\<lambda>j. Fin (f j)) js) = Some (map f js)"
  by (induction js) simp_all

lemma rolling_mean_length: "length (rolling_mean w s) = length s"
  by (simp add: rolling_mean_def)

lemma rolling_mean_nth:
  "i < length s \<Longrightarrow>
   rolling_mean w s ! i =
     (if i + 1 < w then NaN else window_mean w (take w (drop (i + 1 - w) s)))"
  by (simp add: rolling_mean_def)

lemma window_of_map_upt:
  assumes "w \<le> i + 1" "i < n"
  shows "take w (drop (i + 1 - w) (map F [0..<n])) = map F [i + 1 - w..<i + 1]"
proof -
  have "drop (i + 1 - w) (map F [0..<n]) = map F [i + 1 - w..<n]"
    by (simp add: drop_map)
  moreover have "take w [i + 1 - w..<n] = [i + 1 - w..<i + 1]"
    using assms by simp
  ultimately show ?thesis by (simp add: take_map)
qed

lemma window_mean_map_Fin:
  assumes "1 \<le> w" "length js = w"
  shows "window_mean w (map (\<lambda>j. Fin (f j)) js) = Fin (sum_list (map f js) / real w)"
  using assms by (simp add: window_mean_def finite_values_map_Fin)

lemma rolling_mean_map_upt:
  assumes "1 \<le> w" "w \<le> i + 1" "i < n"
  shows "rolling_mean w (map (\<lambda>j. Fin (f j)) [0..<n]) ! i =
     Fin (sum_list (map f [i + 1 - w..<i + 1]) / real w)"
proof -
  have il: "i < length (map (\<lambda>j. Fin (f j)) [0..<n])" using assms(3) by simp
  have nl: "\<not> i + 1 < w" using assms(2) by simp
  have len: "length [i + 1 - w..<i + 1] = w" using assms(2) by (simp del: upt_Suc)
  have "rolling_mean w (map (\<lambda>j. Fin (f j)) [0..<n]) ! i =
      window_mean w (take w (drop (i + 1 - w) (map (\<lambda>j. Fin (f j)) [0..<n])))"
    using rolling_mean_nth [OF il, of w] nl by (simp only: if_False)
  also have "\<dots> = window_mean w (map (\<lambda>j. Fin (f j)) [i + 1 - w..<i + 1])"
    by (simp only: window_of_map_upt [OF assms(2,3)])
  also have "\<dots> = Fin (sum_list (map f [i + 1 - w..<i + 1]) / real w)"
    by (rule window_mean_map_Fin [OF assms(1) len])
  finally show ?thesis .
qed

lemma window_rows: "set [i + 1 - w..<i + 1] = {j. i + 1 - w \<le> j \<and> j \<le> i}"
  by (auto simp del: upt_Suc)

lemma sum_list_map_nonneg_zero_iff:
  fixes f :: "nat \<Rightarrow> real"
  assumes "\<And>j. 0 \<le> f j"
  shows "0 \<le> sum_list (map f js) \<and> (sum_list (map f js) = 0 \<longleftrightarrow> (\<forall>j\<in>set js. f j = 0))"
proof (induction js)
  case Nil
  then show ?case by simp
next
  case (Cons a js)
  have "0 \<le> f a" by (rule assms)
  with Cons show ?case by (auto simp: add_nonneg_eq_0_iff)
qed

lemma rsi_gain_nth:
  assumes "1 \<le> w" "w \<le> i + 1" "i < length xs"
  shows "\<exists>g. rsi_gain xs w ! i = Fin g \<and> 0 \<le> g \<and>
     (g = 0 \<longleftrightarrow> (\<forall>j. i + 1 - w \<le> j \<and> j \<le> i \<and> 1 \<le> j \<longrightarrow> xs ! j \<le> xs ! (j - 1)))"
proof -
  let ?f = "\<lambda>j. if j = 0 then 0 else max 0 (xs ! j - xs ! (j - 1))"
  let ?S = "sum_list (map ?f [i + 1 - w..<i + 1])"
  have nn: "\<And>j. 0 \<le> ?f j" by simp
  have val: "rsi_gain xs w ! i = Fin (?S / real w)"
    unfolding rsi_gain_def Let_def gain_cells
    by (rule rolling_mean_map_upt [OF assms])
  from sum_list_map_nonneg_zero_iff [of ?f "[i + 1 - w..<i + 1]", OF nn]
  have s0: "0 \<le> ?S" and sz: "?S = 0 \<longleftrightarrow> (\<forall>j\<in>set [i + 1 - w..<i + 1]. ?f j = 0)"
    by blast+
  have "(\<forall>j\<in>set [i + 1 - w..<i + 1]. ?f j = 0) \<longleftrightarrow>
      (\<forall>j. i + 1 - w \<le> j \<and> j \<le> i \<and> 1 \<le> j \<longrightarrow> xs ! j \<le> xs ! (j - 1))"
  proof -
    have pt: "\<And>j. ?f j = 0 \<longleftrightarrow> (1 \<le> j \<longrightarrow> xs ! j \<le> xs ! (j - 1))"
      by (auto simp: max_def)
    show ?thesis unfolding window_rows pt by blast
  qed
  with sz have sz': "?S = 0 \<longleftrightarrow>
      (\<forall>j. i + 1 - w \<le> j \<and> j \<le> i \<and> 1 \<le> j \<longrightarrow> xs ! j \<le> xs ! (j - 1))"
    by simp
  have w0: "0 < real w" using assms(1) by simp
  have "0 \<le> ?S / real w" using s0 w0 by simp
  moreover have "?S / real w = 0 \<longleftrightarrow> ?S = 0" using w0 by simp
  ultimately show ?thesis using val sz' by blast
qed

lemma rsi_loss_nth:
  assumes "1 \<le> w" "w \<le> i + 1" "i < length xs"
  shows "\<exists>l. rsi_loss xs w ! i = Fin l \<and> 0 \<le> l \<and>
     (l = 0 \<longleftrightarrow> (\<forall>j. i + 1 - w \<le> j \<and> j \<le> i \<and> 1 \<le> j \<longrightarrow> xs ! (j - 1) \<le> xs ! j))"
proof -
  let ?f = "\<lambda>j. if j = 0 then 0 else max 0 (xs ! (j - 1) - xs ! j)"
  let ?S = "sum_list (map ?f [i + 1 - w..<i + 1])"
  have nn: "\<And>j. 0 \<le> ?f j" by simp
  have val: "rsi_loss xs w ! i = Fin (?S / real w)"
    unfolding rsi_loss_def Let_def loss_cells
    by (rule rolling_mean_map_upt [OF assms])
  from sum_list_map_nonneg_zero_iff [of ?f "[i + 1 - w..<i + 1]", OF nn]
  have s0: "0 \<le> ?S" and sz: "?S = 0 \<longleftrightarrow> (\<forall>j\<in>set [i + 1 - w..<i + 1]. ?f j = 0)"
    by blast+
  have "(\<forall>j\<in>set [i + 1 - w..<i + 1]. ?f j = 0) \<longleftrightarrow>
      (\<forall>j. i + 1 - w \<le> j \<and> j \<le> i \<and> 1 \<le> j \<longrightarrow> xs ! (j - 1) \<le> xs ! j)"
  proof -
    have pt: "\<And>j. ?f j = 0 \<longleftrightarrow> (1 \<le> j \<longrightarrow> xs ! (j - 1) \<le> xs ! j)"
      by (auto simp: max_def)
    show ?thesis unfolding window_rows pt by blast
  qed
  with sz have sz': "?S = 0 \<longleftrightarrow>
      (\<forall>j. i + 1 - w \<le> j \<and> j \<le> i \<and> 1 \<le> j \<longrightarrow> xs ! (j - 1) \<le> xs ! j)"
    by simp
  have w0: "0 < real w" using assms(1) by simp
  have "0 \<le> ?S / real w" using s0 w0 by simp
  moreover have "?S / real w = 0 \<longleftrightarrow> ?S = 0" using w0 by simp
  ultimately show ?thesis using val sz' by blast
qed

lemma rsi_gain_length: "length (rsi_gain xs w) = length xs"
  by (simp add: rsi_gain_def rolling_mean_length where_series_def diff_length)

lemma rsi_loss_length: "length (rsi_loss xs w) = length xs"
  by (simp add: rsi_loss_def rolling_mean_length where_series_def diff_length)

lemma calculate_rsi_length: "length (calculate_rsi xs w) = length xs"
  by (simp add: calculate_rsi_def rsi_gain_length rsi_loss_length)

lemma calculate_rsi_nth:
  "i < length xs \<Longrightarrow>
   calculate_rsi xs w ! i =
     f_sub (Fin 100)
       (f_div (Fin 100) (f_add (Fin 1) (f_div (rsi_gain xs w ! i) (rsi_loss xs w ! i))))"
  by (simp add: calculate_rsi_def rsi_gain_length rsi_loss_length)

lemma rsi_of_averages:
  assumes "0 \<le> g" "0 \<le> l"
  shows "f_sub (Fin 100) (f_div (Fin 100) (f_add (Fin 1) (f_div (Fin g) (Fin l)))) =
     (if l \<noteq> 0 then Fin (100 - 100 / (1 + g / l))
      else if 0 < g then Fin 100 else NaN)"
proof (cases "l = 0")
  case True
  then show ?thesis using assms by (simp add: f_sub_def)
next
  case False
  with assms have "0 \<le> g / l" by simp
  then have "1 + g / l \<noteq> 0" by linarith
  then show ?thesis using False by (simp add: f_sub_def)
qed

lemma rsi_warm_up:
  assumes "i < length xs" "i + 1 < w"
  shows "calculate_rsi xs w ! i = NaN"
proof -
  have "i < length (where_series (\<lambda>d. f_gt d (Fin 0)) (Fin 0) (diff xs))"
    using assms(1) by (simp add: where_series_def diff_length)
  from rolling_mean_nth [OF this, of w] assms(2)
  have "rsi_gain xs w ! i = NaN" by (simp add: rsi_gain_def)
  then show ?thesis using assms(1) by (simp add: calculate_rsi_nth f_sub_def)
qed

lemma rsi_null_iff:
  assumes "1 \<le> w" "w \<le> i + 1" "i < length xs"
  shows "calculate_rsi xs w ! i = NaN \<longleftrightarrow>
     (\<forall>j. i + 1 - w \<le> j \<and> j \<le> i \<and> 1 \<le> j \<longrightarrow> xs ! j = xs ! (j - 1))"
proof -
  from rsi_gain_nth [OF assms] obtain g where
    g: "rsi_gain xs w ! i = Fin g" "0 \<le> g"
      "g = 0 \<longleftrightarrow> (\<forall>j. i + 1 - w \<le> j \<and> j \<le> i \<and> 1 \<le> j \<longrightarrow> xs ! j \<le> xs ! (j - 1))"
    by blast
  from rsi_loss_nth [OF assms] obtain l where
    l: "rsi_loss xs w ! i = Fin l" "0 \<le> l"
      "l = 0 \<longleftrightarrow> (\<forall>j. i + 1 - w \<le> j \<and> j \<le> i \<and> 1 \<le> j \<longrightarrow> xs ! (j - 1) \<le> xs ! j)"
    by blast
  have "calculate_rsi xs w ! i =
      (if l \<noteq> 0 then Fin (100 - 100 / (1 + g / l)) else if 0 < g then Fin 100 else NaN)"
    by (simp only: calculate_rsi_nth [OF assms(3)] g(1) l(1) rsi_of_averages [OF g(2) l(2)])
  then have "calculate_rsi xs w ! i = NaN \<longleftrightarrow> g = 0 \<and> l = 0"
    using g(2) by auto
  also have "\<dots> \<longleftrightarrow>
      (\<forall>j. i + 1 - w \<le> j \<and> j \<le> i \<and> 1 \<le> j \<longrightarrow> xs ! j = xs ! (j - 1))"
    unfolding g(3) l(3) by (auto intro: antisym)
  finally show ?thesis .
qed

text \<open>
  C6. At a row where the trailing average loss is exactly 0 and the trailing average
  gain is positive, the RSI is 100: the division gives an infinity, not an error, and
  \<open>100 - 100 / (1 + \<infinity>)\<close> is 100.
\<close>

theorem rsi_zero_loss_is_100:
  assumes "i < length prices"
    and "rsi_loss prices period ! i = Fin 0"
    and "rsi_gain prices period ! i = Fin g" and "0 < g"
  shows "calculate_rsi prices period ! i = Fin 100"
  using assms by (simp add: calculate_rsi_nth f_sub_def)

text \<open>
  C3. The RSI is null at every row below \<open>period - 1\<close>, so a column of
  fewer than \<open>period\<close> closes has no RSI at all. The null first difference is replaced
  by 0 before the rolling mean, so the first window is complete at row \<open>period - 1\<close>:
  for a column of at least \<open>period\<close> closes the RSI at that row is null only if the first
  \<open>period\<close> closes are all equal, and is the first value otherwise.
\<close>

theorem rsi_first_value_index:
  "(i < length prices \<and> i + 1 < period \<longrightarrow> calculate_rsi prices period ! i = NaN) \<and>
   (1 \<le> period \<and> period \<le> length prices \<longrightarrow>
      (calculate_rsi prices period ! (period - 1) = NaN \<longleftrightarrow>
       (\<forall>j. 1 \<le> j \<and> j < period \<longrightarrow> prices ! j = prices ! (j - 1))))"
proof (intro conjI impI)
  assume "i < length prices \<and> i + 1 < period"
  then show "calculate_rsi prices period ! i = NaN"
    by (simp add: rsi_warm_up)
next
  assume a: "1 \<le> period \<and> period \<le> length prices"
  then have p1: "1 \<le> period" and pl: "period \<le> length prices" by simp_all
  from p1 pl have p: "1 \<le> period" "period \<le> (period - 1) + 1" "period - 1 < length prices"
    by arith+
  have "(\<forall>j. period - 1 + 1 - period \<le> j \<and> j \<le> period - 1 \<and> 1 \<le> j
      \<longrightarrow> prices ! j = prices ! (j - 1)) \<longleftrightarrow>
      (\<forall>j. 1 \<le> j \<and> j < period \<longrightarrow> prices ! j = prices ! (j - 1))"
    using p1 by (auto simp: less_eq_Suc_le)
  then show "calculate_rsi prices period ! (period - 1) = NaN \<longleftrightarrow>
       (\<forall>j. 1 \<le> j \<and> j < period \<longrightarrow> prices ! j = prices ! (j - 1))"
    by (simp only: rsi_null_iff [OF p])
qed

lemma rising_example_averages:
  "rsi_loss [100, 102, 103, 105, 108, 109, 110, 112, 113, 115, 118, 120, 121, 123] 14 ! 13 = Fin 0"
  "rsi_gain [100, 102, 103, 105, 108, 109, 110, 112, 113, 115, 118, 120, 121, 123] 14 ! 13
     = Fin (23 / 14)"
  by (simp_all add: rsi_loss_def rsi_gain_def rolling_mean_nth where_series_def
      window_mean_def f_gt_def)

theorem rsi_zero_loss_is_100_witness:
  "rsi_loss [100, 102, 103, 105, 108, 109, 110, 112, 113, 115, 118, 120, 121, 123] 14 ! 13 = Fin 0 \<and>
   rsi_gain [100, 102, 103, 105, 108, 109, 110, 112, 113, 115, 118, 120, 121, 123] 14 ! 13
     = Fin (23 / 14) \<and>
   calculate_rsi [100, 102, 103, 105, 108, 109, 110, 112, 113, 115, 118, 120, 121, 123] 14 ! 13
     = Fin 100"
proof -
  have i: "13 < length [100, 102, 103, 105, 108, 109, 110, 112, 113, 115, 118, 120, 121, 123 :: real]"
    by simp
  have g: "(0::real) < 23 / 14" by simp
  from rsi_zero_loss_is_100 [OF i rising_example_averages g]
  show ?thesis by (simp only: rising_example_averages simp_thms)
qed

lemma short_example_averages:
  "rsi_gain [100, 102, 101, 105, 108, 107, 110, 112, 111, 115, 118, 120, 119, 123] 14 ! 13
     = Fin (27 / 14)"
  "rsi_loss [100, 102, 101, 105, 108, 107, 110, 112, 111, 115, 118, 120, 119, 123] 14 ! 13
     = Fin (2 / 7)"
  by (simp_all add: rsi_loss_def rsi_gain_def rolling_mean_nth where_series_def
      window_mean_def f_gt_def)

text \<open>
  With the fixed period 14, a column of 14 closes already has an RSI at its last row
  (row 13): 27 up, 4 down gives 2700 / 31.
\<close>

theorem rsi_defined_on_14_closes:
  "length [100, 102, 101, 105, 108, 107, 110, 112, 111, 115, 118, 120, 119, 123 :: real]
     < rsi_period + 1 \<and>
   calculate_rsi [100, 102, 101, 105, 108, 107, 110, 112, 111, 115, 118, 120, 119, 123]
     rsi_period ! 13 = Fin (2700 / 31)"
  by (simp add: rsi_period_def calculate_rsi_nth short_example_averages f_sub_def)

theorem rsi_first_value_index_witness:
  "calculate_rsi [100, 102, 101, 105, 108, 107, 110, 112, 111, 115, 118, 120, 119, 123] 14 ! 12
     = NaN \<and>
   calculate_rsi [100, 102, 101, 105, 108, 107, 110, 112, 111, 115, 118, 120, 119, 123] 14 ! (14 - 1)
     \<noteq> NaN \<and>
   calculate_rsi [7, 7, 7] 3 ! (3 - 1) = NaN"
proof -
  let ?L = "[100, 102, 101, 105, 108, 107, 110, 112, 111, 115, 118, 120, 119, 123 :: real]"
  have a: "12 < length ?L \<and> 12 + 1 < (14::nat)" by simp
  have b: "1 \<le> (14::nat) \<and> 14 \<le> length ?L" by simp
  have "\<not> (\<forall>j. 1 \<le> j \<and> j < (14::nat) \<longrightarrow> ?L ! j = ?L ! (j - 1))"
    by (intro notI) (auto dest!: spec [of _ 1])
  with rsi_first_value_index [of 12 ?L 14] a b
  have r1: "calculate_rsi ?L 14 ! 12 = NaN" and r2: "calculate_rsi ?L 14 ! (14 - 1) \<noteq> NaN"
    by blast+
  have c: "1 \<le> (3::nat) \<and> 3 \<le> length [7, 7, 7 :: real]" by simp
  have "\<forall>j. 1 \<le> j \<and> j < (3::nat) \<longrightarrow> [7, 7, 7 :: real] ! j = [7, 7, 7] ! (j - 1)"
    by (auto simp: nth_Cons split: nat.splits)
  with rsi_first_value_index [of 0 "[7, 7, 7]" 3] c
  have r3: "calculate_rsi [7, 7, 7] 3 ! (3 - 1) = NaN" by blast
  from r1 r2 r3 show ?thesis by blast
qed

section \<open>Volume fields of the signal record\<close>

lemma calculate_indicators_length: "length (calculate_indicators xs) = length xs"
  by (simp add: calculate_indicators_def Let_def split_beta)

lemma calculate_indicators_nth:
  "i < length xs \<Longrightarrow>
   calculate_indicators xs ! i =
     [(''close'', Fin (xs ! i)),
      (''RSI'', calculate_rsi xs rsi_period ! i),
      (''MACD_12_26_9'',
         Fin (fst (calculate_macd xs macd_fast macd_slow macd_signal_period) ! i)),
      (''MACDs_12_26_9'',
         Fin (fst (snd (calculate_macd xs macd_fast macd_slow macd_signal_period)) ! i)),
      (''MACDh_12_26_9'',
         Fin (snd (snd (calculate_macd xs macd_fast macd_slow macd_signal_period)) ! i)),
      (''EMA9'', Fin (calculate_ema xs ema_short ! i)),
      (''EMA21'', Fin (calculate_ema xs ema_long ! i)),
      (''Volume'', map f_abs (diff xs) ! i),
      (''MediaVolume'', rolling_mean 20 (map f_abs (diff xs)) ! i)]"
  by (simp add: calculate_indicators_def Let_def split_beta)

lemma volume_cell:
  "i < length xs \<Longrightarrow>
   map f_abs (diff xs) ! i = (if i = 0 then NaN else Fin \<bar>xs ! i - xs ! (i - 1)\<bar>)"
  by (simp add: diff_length diff_nth)

lemma finite_values_NaN_head: "finite_values (NaN # cells) = None"
  by simp

lemma media_volume_null:
  assumes "i < length xs" "i < 20"
  shows "rolling_mean 20 (map f_abs (diff xs)) ! i = NaN"
proof (cases "i + 1 < 20")
  case True
  then show ?thesis using assms(1) by (simp add: rolling_mean_nth diff_length)
next
  case False
  with assms(2) have i: "i = 19" by simp
  from assms(1) obtain x ys where xs: "xs = x # ys" by (cases xs) auto
  have "take 20 (drop (i + 1 - 20) (map f_abs (diff xs))) =
      NaN # take 19 (map f_abs (diff_from x ys))"
    by (simp add: i xs)
  then have "window_mean 20 (take 20 (drop (i + 1 - 20) (map f_abs (diff xs)))) = NaN"
    by (simp only: window_mean_def finite_values_NaN_head option.case)
  then show ?thesis using assms(1) False by (simp add: rolling_mean_nth diff_length)
qed

lemma last_row_cells:
  assumes "2 \<le> length xs"
  shows "\<not> df_empty (calculate_indicators xs)"
    and "2 \<le> length (calculate_indicators xs)"
    and "get (last (calculate_indicators xs)) ''RSI'' =
           Some (calculate_rsi xs rsi_period ! (length xs - 1))"
    and "\<exists>m. get (last (calculate_indicators xs)) ''MACD_12_26_9'' = Some (Fin m)"
    and "\<exists>s. get (last (calculate_indicators xs)) ''MACDs_12_26_9'' = Some (Fin s)"
    and "\<exists>e. get (last (calculate_indicators xs)) ''EMA9'' = Some (Fin e)"
    and "\<exists>e. get (last (calculate_indicators xs)) ''EMA21'' = Some (Fin e)"
    and "get (last (calculate_indicators xs)) ''close'' = Some (Fin (last xs))"
    and "get_default (last (calculate_indicators xs)) ''Volume'' (Fin 0) =
           Fin \<bar>xs ! (length xs - 1) - xs ! (length xs - 2)\<bar>"
    and "get_default (last (calculate_indicators xs)) ''MediaVolume'' (Fin 0) =
           rolling_mean 20 (map f_abs (diff xs)) ! (length xs - 1)"
proof -
  from assms have xne: "xs \<noteq> []" by (cases xs) simp_all
  then have ne: "calculate_indicators xs \<noteq> []"
    using calculate_indicators_length [of xs] by (cases "calculate_indicators xs") simp_all
  from assms have i: "length xs - 1 < length xs" by simp
  have row: "last (calculate_indicators xs) = calculate_indicators xs ! (length xs - 1)"
    using ne by (simp add: last_conv_nth calculate_indicators_length)
  have r: "last (calculate_indicators xs) =
     [(''close'', Fin (xs ! (length xs - 1))),
      (''RSI'', calculate_rsi xs rsi_period ! (length xs - 1)),
      (''MACD_12_26_9'',
         Fin (fst (calculate_macd xs macd_fast macd_slow macd_signal_period) ! (length xs - 1))),
      (''MACDs_12_26_9'',
         Fin (fst (snd (calculate_macd xs macd_fast macd_slow macd_signal_period)) ! (length xs - 1))),
      (''MACDh_12_26_9'',
         Fin (snd (snd (calculate_macd xs macd_fast macd_slow macd_signal_period)) ! (length xs - 1))),
      (''EMA9'', Fin (calculate_ema xs ema_short ! (length xs - 1))),
      (''EMA21'', Fin (calculate_ema xs ema_long ! (length xs - 1))),
      (''Volume'', map f_abs (diff xs) ! (length xs - 1)),
      (''MediaVolume'', rolling_mean 20 (map f_abs (diff xs)) ! (length xs - 1))]"
    by (simp only: row calculate_indicators_nth [OF i])
  have h0: "0 < length xs" using xne by simp
  show "\<not> df_empty (calculate_indicators xs)"
    using ne calculate_indicators_nth [OF h0]
    by (cases "calculate_indicators xs") (simp_all add: df_empty_def)
  show "2 \<le> length (calculate_indicators xs)"
    using assms by (simp add: calculate_indicators_length)
  show "get (last (calculate_indicators xs)) ''RSI'' =
           Some (calculate_rsi xs rsi_period ! (length xs - 1))"
    by (simp add: r get_def)
  show "\<exists>m. get (last (calculate_indicators xs)) ''MACD_12_26_9'' = Some (Fin m)"
    by (simp add: r get_def)
  show "\<exists>s. get (last (calculate_indicators xs)) ''MACDs_12_26_9'' = Some (Fin s)"
    by (simp add: r get_def)
  show "\<exists>e. get (last (calculate_indicators xs)) ''EMA9'' = Some (Fin e)"
    by (simp add: r get_def)
  show "\<exists>e. get (last (calculate_indicators xs)) ''EMA21'' = Some (Fin e)"
    by (simp add: r get_def)
  show "get (last (calculate_indicators xs)) ''close'' = Some (Fin (last xs))"
    using xne by (simp add: r get_def last_conv_nth)
  have "length xs - 1 \<noteq> 0" "length xs - 1 - 1 = length xs - 2" using assms by simp_all
  then show "get_default (last (calculate_indicators xs)) ''Volume'' (Fin 0) =
           Fin \<bar>xs ! (length xs - 1) - xs ! (length xs - 2)\<bar>"
    using volume_cell [OF i] by (simp add: r get_default_def)
  show "get_default (last (calculate_indicators xs)) ''MediaVolume'' (Fin 0) =
           rolling_mean 20 (map f_abs (diff xs)) ! (length xs - 1)"
    by (simp add: r get_default_def)
qed

lemma guard_pass_record:
  assumes a: "\<not> df_empty df \<and> 2 \<le> length df \<and>
    (\<forall>k\<in>set required_indicators. \<not> isna (get (last df) k))"
  shows "\<exists>sd. generate_signal (Some df) = Some sd \<and>
             volume sd = (case get (last df) ''Volume'' of None \<Rightarrow> Fin 0 | Some v \<Rightarrow> v) \<and>
             volume_avg sd =
               (case get (last df) ''MediaVolume'' of None \<Rightarrow> Fin 0 | Some v \<Rightarrow> v)"
proof -
  from a have sz: "\<not> df_empty df" "2 \<le> length df" by simp_all
  from a have na: "\<not> isna (get (last df) ''RSI'')" "\<not> isna (get (last df) ''MACD_12_26_9'')"
    "\<not> isna (get (last df) ''MACDs_12_26_9'')" "\<not> isna (get (last df) ''EMA9'')"
    "\<not> isna (get (last df) ''EMA21'')" "\<not> isna (get (last df) ''close'')"
    by (simp_all add: required_indicators_def)
  from na(1) obtain r where r: "get (last df) ''RSI'' = Some r" "r \<noteq> NaN"
    using not_isna_Some by blast
  from na(2) obtain m where m: "get (last df) ''MACD_12_26_9'' = Some m" "m \<noteq> NaN"
    using not_isna_Some by blast
  from na(3) obtain s where s: "get (last df) ''MACDs_12_26_9'' = Some s" "s \<noteq> NaN"
    using not_isna_Some by blast
  from na(4) obtain e9 where e9: "get (last df) ''EMA9'' = Some e9" "e9 \<noteq> NaN"
    using not_isna_Some by blast
  from na(5) obtain e21 where e21: "get (last df) ''EMA21'' = Some e21" "e21 \<noteq> NaN"
    using not_isna_Some by blast
  from na(6) obtain p where p: "get (last df) ''close'' = Some p" "p \<noteq> NaN"
    using not_isna_Some by blast
  note g = generate_signal_Some [OF sz r m s e9 e21 p]
  show ?thesis
    by (simp add: g get_default_def get_def)
qed

lemma pipeline_short_history:
  assumes a: "rsi_period \<le> length prices \<and> length prices \<le> 20 \<and>
    (\<exists>j. length prices - rsi_period \<le> j \<and> j < length prices \<and> 1 \<le> j \<and>
         prices ! j \<noteq> prices ! (j - 1))"
  shows "\<exists>sd. generate_signal (Some (calculate_indicators prices)) = Some sd \<and>
             volume_avg sd = NaN \<and>
             volume sd = Fin \<bar>prices ! (length prices - 1) - prices ! (length prices - 2)\<bar>"
proof -
  let ?n = "length prices"
  let ?df = "calculate_indicators prices"
  from a have n14: "14 \<le> ?n" and n20: "?n \<le> 20" by (simp_all add: rsi_period_def)
  from a obtain j where j: "?n - 14 \<le> j" "j < ?n" "1 \<le> j" "prices ! j \<noteq> prices ! (j - 1)"
    by (auto simp: rsi_period_def)
  from n14 have n2: "2 \<le> ?n" by simp
  note c = last_row_cells [OF n2]
  have w: "1 \<le> (14::nat)" "14 \<le> (?n - 1) + 1" "?n - 1 < ?n" using n14 by simp_all
  have "\<not> (\<forall>k. ?n - 1 + 1 - 14 \<le> k \<and> k \<le> ?n - 1 \<and> 1 \<le> k
      \<longrightarrow> prices ! k = prices ! (k - 1))"
  proof
    assume h: "\<forall>k. ?n - 1 + 1 - 14 \<le> k \<and> k \<le> ?n - 1 \<and> 1 \<le> k
      \<longrightarrow> prices ! k = prices ! (k - 1)"
    have "?n - 1 + 1 - 14 \<le> j \<and> j \<le> ?n - 1 \<and> 1 \<le> j" using j n14 by simp
    with h have "prices ! j = prices ! (j - 1)" by blast
    with j(4) show False by simp
  qed
  then have rsi_ok: "calculate_rsi prices rsi_period ! (?n - 1) \<noteq> NaN"
    unfolding rsi_period_def by (simp only: rsi_null_iff [OF w] not_False_eq_True)
  from c(4) obtain m where m: "get (last ?df) ''MACD_12_26_9'' = Some (Fin m)" by blast
  from c(5) obtain s where s: "get (last ?df) ''MACDs_12_26_9'' = Some (Fin s)" by blast
  from c(6) obtain e9 where e9: "get (last ?df) ''EMA9'' = Some (Fin e9)" by blast
  from c(7) obtain e21 where e21: "get (last ?df) ''EMA21'' = Some (Fin e21)" by blast
  have fin: "\<And>a. Fin a \<noteq> NaN" by simp
  note g = generate_signal_Some [OF c(1) c(2) c(3) rsi_ok m fin s fin e9 fin e21 fin c(8) fin]
  have mv: "rolling_mean 20 (map f_abs (diff prices)) ! (?n - 1) = NaN"
    using n14 n20 by (intro media_volume_null) simp_all
  show ?thesis
    by (simp only: g c(9) c(10) mv signal_data.simps option.inject simp_thms ex_simps)
qed

lemma pipeline_volume_not_null:
  assumes "generate_signal (Some (calculate_indicators prices)) = Some sd"
  shows "volume sd \<noteq> NaN"
proof -
  note d = generate_signal_Some_D [OF assms]
  then have "2 \<le> length prices" by (simp add: calculate_indicators_length)
  from last_row_cells(9) [OF this] d show ?thesis by simp
qed

text \<open>
  C10. The null check covers the six required cells only. Once they are
  non-null in the latest row of a frame of at least two rows, a record is returned
  whatever the Volume and MediaVolume cells are: a cell is copied as it is (a null cell
  stays null) and an absent column gives 0. For a price column of 14 to 20 closes whose
  last 14 closes are not all equal, the record's volume_avg is null, while its volume is
  the last absolute price change.
\<close>

theorem volume_fields_unguarded:
  "(\<not> df_empty df \<and> 2 \<le> length df \<and>
    (\<forall>k\<in>set required_indicators. \<not> isna (get (last df) k))
      \<longrightarrow> (\<exists>sd. generate_signal (Some df) = Some sd \<and>
             volume sd = (case get (last df) ''Volume'' of None \<Rightarrow> Fin 0 | Some v \<Rightarrow> v) \<and>
             volume_avg sd =
               (case get (last df) ''MediaVolume'' of None \<Rightarrow> Fin 0 | Some v \<Rightarrow> v))) \<and>
   (rsi_period \<le> length prices \<and> length prices \<le> 20 \<and>
    (\<exists>j. length prices - rsi_period \<le> j \<and> j < length prices \<and> 1 \<le> j \<and>
         prices ! j \<noteq> prices ! (j - 1))
      \<longrightarrow> (\<exists>sd. generate_signal (Some (calculate_indicators prices)) = Some sd \<and>
             volume_avg sd = NaN \<and>
             volume sd = Fin \<bar>prices ! (length prices - 1) - prices ! (length prices - 2)\<bar>))"
  using guard_pass_record [of df] pipeline_short_history [of prices] by blast

theorem volume_fields_unguarded_witness:
  "(\<exists>sd. generate_signal (Some
        [[(''close'', Fin 100), (''RSI'', Fin 50), (''MACD_12_26_9'', Fin 1),
          (''MACDs_12_26_9'', Fin 1), (''EMA9'', Fin 100), (''EMA21'', Fin 100),
          (''Volume'', NaN), (''MediaVolume'', NaN)],
         [(''close'', Fin 101), (''RSI'', Fin 62), (''MACD_12_26_9'', Fin 1.2),
          (''MACDs_12_26_9'', Fin 0.9), (''EMA9'', Fin 118), (''EMA21'', Fin 110),
          (''Volume'', NaN), (''MediaVolume'', NaN)]]) = Some sd \<and>
      volume sd = NaN \<and> volume_avg sd = NaN) \<and>
   (\<exists>sd. generate_signal (Some
        [[(''close'', Fin 100), (''RSI'', Fin 50), (''MACD_12_26_9'', Fin 1),
          (''MACDs_12_26_9'', Fin 1), (''EMA9'', Fin 100), (''EMA21'', Fin 100)],
         [(''close'', Fin 101), (''RSI'', Fin 62), (''MACD_12_26_9'', Fin 1.2),
          (''MACDs_12_26_9'', Fin 0.9), (''EMA9'', Fin 118), (''EMA21'', Fin 110)]]) = Some sd \<and>
      volume sd = Fin 0 \<and> volume_avg sd = Fin 0) \<and>
   (\<exists>sd. generate_signal (Some (calculate_indicators
        [100, 102, 101, 105, 108, 107, 110, 112, 111, 115, 118, 120, 119, 123, 125])) = Some sd \<and>
      volume_avg sd = NaN \<and> volume sd = Fin 2)"
proof -
  let ?A = "[[(''close'', Fin 100), (''RSI'', Fin 50), (''MACD_12_26_9'', Fin 1),
          (''MACDs_12_26_9'', Fin 1), (''EMA9'', Fin 100), (''EMA21'', Fin 100),
          (''Volume'', NaN), (''MediaVolume'', NaN)],
         [(''close'', Fin 101), (''RSI'', Fin 62), (''MACD_12_26_9'', Fin 1.2),
          (''MACDs_12_26_9'', Fin 0.9), (''EMA9'', Fin 118), (''EMA21'', Fin 110),
          (''Volume'', NaN), (''MediaVolume'', NaN)]]"
  let ?B = "[[(''close'', Fin 100), (''RSI'', Fin 50), (''MACD_12_26_9'', Fin 1),
          (''MACDs_12_26_9'', Fin 1), (''EMA9'', Fin 100), (''EMA21'', Fin 100)],
         [(''close'', Fin 101), (''RSI'', Fin 62), (''MACD_12_26_9'', Fin 1.2),
          (''MACDs_12_26_9'', Fin 0.9), (''EMA9'', Fin 118), (''EMA21'', Fin 110)]]"
  let ?L = "[100, 102, 101, 105, 108, 107, 110, 112, 111, 115, 118, 120, 119, 123, 125 :: real]"
  have hA: "\<not> df_empty ?A \<and> 2 \<le> length ?A \<and>
      (\<forall>k\<in>set required_indicators. \<not> isna (get (last ?A) k))"
    by (simp add: df_empty_def required_indicators_def get_def)
  have hB: "\<not> df_empty ?B \<and> 2 \<le> length ?B \<and>
      (\<forall>k\<in>set required_indicators. \<not> isna (get (last ?B) k))"
    by (simp add: df_empty_def required_indicators_def get_def)
  have "\<exists>j. length ?L - rsi_period \<le> j \<and> j < length ?L \<and> 1 \<le> j \<and> ?L ! j \<noteq> ?L ! (j - 1)"
    by (rule exI [of _ 14]) (simp add: rsi_period_def)
  then have hL: "rsi_period \<le> length ?L \<and> length ?L \<le> 20 \<and>
      (\<exists>j. length ?L - rsi_period \<le> j \<and> j < length ?L \<and> 1 \<le> j \<and> ?L ! j \<noteq> ?L ! (j - 1))"
    by (simp add: rsi_period_def)
  have vA: "get (last ?A) ''Volume'' = Some NaN" "get (last ?A) ''MediaVolume'' = Some NaN"
    by (simp_all add: get_def)
  have vB: "get (last ?B) ''Volume'' = None" "get (last ?B) ''MediaVolume'' = None"
    by (simp_all add: get_def)
  have vL: "\<bar>?L ! (length ?L - 1) - ?L ! (length ?L - 2)\<bar> = 2" by simp
  have "\<exists>sd. generate_signal (Some ?A) = Some sd \<and>
      volume sd = (case get (last ?A) ''Volume'' of None \<Rightarrow> Fin 0 | Some v \<Rightarrow> v) \<and>
      volume_avg sd = (case get (last ?A) ''MediaVolume'' of None \<Rightarrow> Fin 0 | Some v \<Rightarrow> v)"
    using volume_fields_unguarded [of ?A, THEN conjunct1] hA by (rule mp)
  then have rA: "\<exists>sd. generate_signal (Some ?A) = Some sd \<and> volume sd = NaN \<and> volume_avg sd = NaN"
    by (simp only: vA option.case)
  have "\<exists>sd. generate_signal (Some ?B) = Some sd \<and>
      volume sd = (case get (last ?B) ''Volume'' of None \<Rightarrow> Fin 0 | Some v \<Rightarrow> v) \<and>
      volume_avg sd = (case get (last ?B) ''MediaVolume'' of None \<Rightarrow> Fin 0 | Some v \<Rightarrow> v)"
    using volume_fields_unguarded [of ?B, THEN conjunct1] hB by (rule mp)
  then have rB: "\<exists>sd. generate_signal (Some ?B) = Some sd \<and> volume sd = Fin 0 \<and> volume_avg sd = Fin 0"
    by (simp only: vB option.case)
  have "\<exists>sd. generate_signal (Some (calculate_indicators ?L)) = Some sd \<and>
      volume_avg sd = NaN \<and> volume sd = Fin \<bar>?L ! (length ?L - 1) - ?L ! (length ?L - 2)\<bar>"
    using volume_fields_unguarded [of "[]" ?L, THEN conjunct2] hL by (rule mp)
  then have rL: "\<exists>sd. generate_signal (Some (calculate_indicators ?L)) = Some sd \<and>
      volume_avg sd = NaN \<and> volume sd = Fin 2"
    by (simp only: vL)
  from rA rB rL show ?thesis by (intro conjI)
qed

text \<open>
  For a frame computed from numeric prices the volume field of a returned record is never
  null: on the 15 closes below the record has volume 2 and a null volume_avg.
\<close>

theorem pipeline_volume_never_null:
  "(\<exists>sd. generate_signal (Some (calculate_indicators
        [100, 102, 101, 105, 108, 107, 110, 112, 111, 115, 118, 120, 119, 123, 125])) = Some sd \<and>
      volume sd = Fin 2 \<and> volume_avg sd = NaN) \<and>
   \<not> (\<exists>prices sd. generate_signal (Some (calculate_indicators prices)) = Some sd \<and>
      volume sd = NaN \<and> volume_avg sd = NaN)"
proof
  let ?L = "[100, 102, 101, 105, 108, 107, 110, 112, 111, 115, 118, 120, 119, 123, 125 :: real]"
  have "\<exists>j. length ?L - rsi_period \<le> j \<and> j < length ?L \<and> 1 \<le> j \<and> ?L ! j \<noteq> ?L ! (j - 1)"
    by (rule exI [of _ 14]) (simp add: rsi_period_def)
  then have hL: "rsi_period \<le> length ?L \<and> length ?L \<le> 20 \<and>
      (\<exists>j. length ?L - rsi_period \<le> j \<and> j < length ?L \<and> 1 \<le> j \<and> ?L ! j \<noteq> ?L ! (j - 1))"
    by (simp add: rsi_period_def)
  have vL: "\<bar>?L ! (length ?L - 1) - ?L ! (length ?L - 2)\<bar> = 2" by simp
  from pipeline_short_history [OF hL]
  show "\<exists>sd. generate_signal (Some (calculate_indicators ?L)) = Some sd \<and>
      volume sd = Fin 2 \<and> volume_avg sd = NaN"
    by (simp only: vL) blast
next
  show "\<not> (\<exists>prices sd. generate_signal (Some (calculate_indicators prices)) = Some sd \<and>
      volume sd = NaN \<and> volume_avg sd = NaN)"
    using pipeline_volume_not_null by blast
qed

end
